theory Spec2Isabelle
  imports Complex_Main
begin

section \<open>Numbers and dates of the performance dashboard\<close>

text \<open>
  The performance page computes its statistics on JavaScript numbers taken from a JSON
  payload. JSON carries finite numbers only, so every input value is modelled as a
  \<^typ>\<open>real\<close>: rounding, overflow and the sign of zero are not modelled. A JavaScript
  division by zero and \<^verbatim>\<open>Math.pow\<close> on a negative base do not fail, they produce
  an infinity or NaN; wherever the source divides without a guard, or calls
  \<^verbatim>\<open>Math.pow\<close>, the result is a \<open>number\<close>, which has these values.
\<close>

datatype number = Num real | PInfinity | NInfinity | NaN

text \<open>\<^verbatim>\<open>a / b\<close> on finite operands.\<close>

definition js_div :: "real \<Rightarrow> real \<Rightarrow> number" where
  "js_div a b =
     (if b \<noteq> 0 then Num (a / b)
      else if 0 < a then PInfinity
      else if a < 0 then NInfinity
      else NaN)"

text \<open>\<^verbatim>\<open>a < b\<close>: every comparison with NaN is false.\<close>

fun js_lt :: "number \<Rightarrow> number \<Rightarrow> bool" where
  "js_lt NaN _ = False"
| "js_lt _ NaN = False"
| "js_lt (Num a) (Num b) = (a < b)"
| "js_lt NInfinity NInfinity = False"
| "js_lt NInfinity _ = True"
| "js_lt _ NInfinity = False"
| "js_lt PInfinity _ = False"
| "js_lt (Num a) PInfinity = True"

text \<open>\<^verbatim>\<open>a >= b\<close>, used to state results.\<close>

fun js_ge :: "number \<Rightarrow> number \<Rightarrow> bool" where
  "js_ge NaN _ = False"
| "js_ge _ NaN = False"
| "js_ge (Num a) (Num b) = (b \<le> a)"
| "js_ge PInfinity _ = True"
| "js_ge _ NInfinity = True"
| "js_ge NInfinity _ = False"
| "js_ge (Num a) PInfinity = False"

text \<open>\<^verbatim>\<open>Math.abs\<close>.\<close>

fun js_abs :: "number \<Rightarrow> number" where
  "js_abs (Num a) = Num \<bar>a\<bar>"
| "js_abs PInfinity = PInfinity"
| "js_abs NInfinity = PInfinity"
| "js_abs NaN = NaN"

text \<open>\<^verbatim>\<open>Math.pow(b, e)\<close> on finite operands.\<close>

definition js_pow :: "real \<Rightarrow> real \<Rightarrow> number" where
  "js_pow b e =
     (if e = 0 then Num 1
      else if 0 < b then Num (b powr e)
      else if b = 0 then (if 0 < e then Num 0 else PInfinity)
      else if of_int \<lfloor>e\<rfloor> = e then Num (b powi \<lfloor>e\<rfloor>)
      else NaN)"

text \<open>\<^verbatim>\<open>x - c\<close> for a finite \<open>c\<close>.\<close>

fun js_minus :: "number \<Rightarrow> real \<Rightarrow> number" where
  "js_minus (Num a) c = Num (a - c)"
| "js_minus PInfinity c = PInfinity"
| "js_minus NInfinity c = NInfinity"
| "js_minus NaN c = NaN"

text \<open>
  A date string \<^verbatim>\<open>YYYY-MM-DD\<close> is represented by its day number (days since
  1970-01-01): equality and the order of such strings are equality and the order of the
  day numbers. A \<^verbatim>\<open>Date\<close> object is its \<^verbatim>\<open>getTime()\<close>, the milliseconds
  since the epoch; \<^verbatim>\<open>parseDate\<close> reads the string as midnight UTC.
\<close>

type_synonym isodate = int
type_synonym Date = int

definition parseDate :: "isodate \<Rightarrow> Date" where
  "parseDate raw = raw * 86400000"

section \<open>Data model\<close>

record PricePoint =
  date :: isodate
  value_of :: real

record PortfolioPoint = PricePoint +
  equity :: real
  cash :: real

record PositionState =
  pos_date :: isodate
  pos_shares :: "string \<rightharpoonup> real"
  pos_cash :: real

record HoldingSummary =
  symbol :: string
  description :: string
  shares :: real
  current_value :: real
  cost_basis :: "real option"
  gain_abs :: "real option"
  gain_pct :: "real option"

text \<open>
  Of the payload, the three fields that \<^verbatim>\<open>computeHoldingPerformance\<close> reads. The
  \<^verbatim>\<open>shares\<close> of a position and the \<^verbatim>\<open>price_series\<close> are objects used for
  lookup only, hence maps.
\<close>

record PerformanceResponse =
  price_series :: "string \<rightharpoonup> PricePoint list"
  positions :: "PositionState list"
  holdings :: "HoldingSummary list"

record Metrics =
  totalReturn :: "number option"
  totalAbs :: "number option"
  annualized :: "number option"
  volatility :: "number option"
  maxDrawdown :: "number option"
  sharpe :: "number option"
  beta :: "number option"
  correlation :: "number option"

section \<open>Metrics of one series\<close>

text \<open>\<^verbatim>\<open>values.reduce((sum, v) => sum + v, 0)\<close>.\<close>

definition reduce_sum :: "real list \<Rightarrow> real" where
  "reduce_sum values = fold (\<lambda>v sum. sum + v) values 0"

definition stdDev :: "real list \<Rightarrow> real" where
  "stdDev values =
     (if values = [] then 0
      else
        let mean = reduce_sum values / real (length values);
            variance =
              fold (\<lambda>v sum. sum + (v - mean) * (v - mean)) values 0 / real (length values)
        in sqrt variance)"

text \<open>
  The loop of \<^verbatim>\<open>computeMaxDrawdown\<close>: the state is \<open>(maxPeak, maxDD)\<close>. The
  division by \<open>maxPeak\<close> has no guard.
\<close>

definition drawdownStep :: "real \<Rightarrow> real \<times> number \<Rightarrow> real \<times> number" where
  "drawdownStep v st =
     (let maxPeak = (if fst st < v then v else fst st);
          dd = js_div (v - maxPeak) maxPeak;
          maxDD = (if js_lt dd (snd st) then dd else snd st)
      in (maxPeak, maxDD))"

definition computeMaxDrawdown :: "real list \<Rightarrow> number option" where
  "computeMaxDrawdown values =
     (if values = [] then None
      else Some (js_abs (snd (fold drawdownStep values (values ! 0, Num 0)))))"

definition emptyMetrics :: Metrics where
  "emptyMetrics =
     \<lparr> totalReturn = None, totalAbs = None, annualized = None, volatility = None,
       maxDrawdown = None, sharpe = None, beta = None, correlation = None \<rparr>"

text \<open>
  The loop of \<^verbatim>\<open>computeMetrics\<close> that collects the returns: one round, and the
  loop for \<open>i\<close> from 1.
\<close>

definition returnsStep :: "PortfolioPoint list \<Rightarrow> nat \<Rightarrow> real list \<Rightarrow> real list" where
  "returnsStep series i returns =
     (let prev = value_of (series ! (i - 1));
          curr = value_of (series ! i)
      in if 0 < prev then returns @ [curr / prev - 1] else returns)"

definition dailyReturns :: "PortfolioPoint list \<Rightarrow> real list" where
  "dailyReturns series = fold (returnsStep series) [1 ..< length series] []"

definition computeMetrics :: "PortfolioPoint list \<Rightarrow> Metrics" where
  "computeMetrics series =
     (if length series < 2 then emptyMetrics
      else
        let start = series ! 0;
            end_pt = series ! (length series - 1);
            days = real_of_int (parseDate (date end_pt) - parseDate (date start))
                     / (1000 * 60 * 60 * 24);
            totalReturn_v =
              (if 0 < value_of start then Some (value_of end_pt / value_of start - 1)
               else None);
            totalAbs_v = value_of end_pt - value_of start;
            returns = dailyReturns series;
            volatility_v =
              (if returns \<noteq> [] then Some (stdDev returns * sqrt 252) else None);
            avgDaily =
              (if returns \<noteq> [] then Some (reduce_sum returns / real (length returns))
               else None);
            sharpe_v =
              (case (avgDaily, volatility_v) of
                 (Some a, Some v) \<Rightarrow>
                   if v \<noteq> 0 \<and> 0 < v then Some (a * 252 / v) else None
               | _ \<Rightarrow> None);
            annualized_v =
              (case totalReturn_v of
                 Some tr \<Rightarrow>
                   if 30 \<le> days then Some (js_minus (js_pow (1 + tr) (365 / days)) 1)
                   else None
               | None \<Rightarrow> None);
            maxDrawdown_v = computeMaxDrawdown (map value_of series)
        in \<lparr> totalReturn = map_option Num totalReturn_v,
             totalAbs = Some (Num totalAbs_v),
             annualized = annualized_v,
             volatility = map_option Num volatility_v,
             maxDrawdown = maxDrawdown_v,
             sharpe = map_option Num sharpe_v,
             beta = None,
             correlation = None \<rparr>)"

section \<open>Metrics relative to a benchmark\<close>

text \<open>
  \<^verbatim>\<open>computeRelativeMetrics\<close> returns the two fields \<^verbatim>\<open>beta\<close> and
  \<^verbatim>\<open>correlation\<close> of a partial \<^verbatim>\<open>Metrics\<close> object.
\<close>

record RelativeMetrics =
  rel_beta :: "number option"
  rel_correlation :: "number option"

text \<open>The lookup object keyed by date string; a later point overwrites an earlier one.\<close>

definition benchMapOf :: "PricePoint list \<Rightarrow> (isodate \<rightharpoonup> real)" where
  "benchMapOf benchmark = fold (\<lambda>b m. m(date b \<mapsto> value_of b)) benchmark Map.empty"

text \<open>One round of the loop over \<open>i\<close>; the state is \<open>(portReturns, benchReturns)\<close>.\<close>

definition alignStep ::
  "PortfolioPoint list \<Rightarrow> (isodate \<rightharpoonup> real) \<Rightarrow> nat \<Rightarrow> real list \<times> real list
     \<Rightarrow> real list \<times> real list" where
  "alignStep portfolio benchMap i st =
     (case (benchMap (date (portfolio ! i)), benchMap (date (portfolio ! (i - 1)))) of
        (Some benchVal, Some benchPrev) \<Rightarrow>
          let portPrev = value_of (portfolio ! (i - 1));
              portCurr = value_of (portfolio ! i)
          in if portPrev \<le> 0 \<or> benchPrev \<le> 0 then st
             else (fst st @ [portCurr / portPrev - 1], snd st @ [benchVal / benchPrev - 1])
      | _ \<Rightarrow> st)"

definition alignedReturns ::
  "PortfolioPoint list \<Rightarrow> PricePoint list \<Rightarrow> real list \<times> real list" where
  "alignedReturns portfolio benchmark =
     fold (alignStep portfolio (benchMapOf benchmark)) [1 ..< length portfolio] ([], [])"

definition correlationCalc :: "real list \<Rightarrow> real list \<Rightarrow> real option" where
  "correlationCalc a b =
     (if length a \<noteq> length b \<or> length a = 0 then None
      else
        let meanA = reduce_sum a / real (length a);
            meanB = reduce_sum b / real (length b);
            acc = fold (\<lambda>i (numerator, denomA, denomB).
                          let da = a ! i - meanA; db = b ! i - meanB
                          in (numerator + da * db, denomA + da * da, denomB + db * db))
                       [0 ..< length a] (0, 0, 0);
            denom = sqrt (fst (snd acc) * snd (snd acc))
        in if denom = 0 then None else Some (fst acc / denom))"

definition betaCalc :: "real list \<Rightarrow> real list \<Rightarrow> real option" where
  "betaCalc a b =
     (if length a \<noteq> length b \<or> length a = 0 then None
      else
        let meanA = reduce_sum a / real (length a);
            meanB = reduce_sum b / real (length b);
            acc = fold (\<lambda>i (cov, varB).
                          (cov + (a ! i - meanA) * (b ! i - meanB),
                           varB + (b ! i - meanB) * (b ! i - meanB)))
                       [0 ..< length a] (0, 0)
        in if snd acc = 0 then None else Some (fst acc / snd acc))"

definition computeRelativeMetrics ::
  "PortfolioPoint list \<Rightarrow> PricePoint list \<Rightarrow> RelativeMetrics" where
  "computeRelativeMetrics portfolio benchmark =
     (let rs = alignedReturns portfolio benchmark;
          portReturns = fst rs;
          benchReturns = snd rs
      in if portReturns = [] \<or> length portReturns \<noteq> length benchReturns
         then \<lparr> rel_beta = None, rel_correlation = None \<rparr>
         else \<lparr> rel_beta = map_option Num (betaCalc portReturns benchReturns),
                rel_correlation = map_option Num (correlationCalc portReturns benchReturns) \<rparr>)"

section \<open>Chart rows\<close>

datatype ViewMode = ViewValue | ViewIndexed

text \<open>A chart row is an object from field names to a date string or a number.\<close>

datatype cell = DateCell isodate | NumCell real

type_synonym row = "string \<rightharpoonup> cell"

text \<open>
  The benchmark and overlay arguments are objects from a key to a series; they are lists
  of entries in the order of \<^verbatim>\<open>Object.entries\<close>, with distinct keys.
\<close>

type_synonym series_record = "(string \<times> PricePoint list) list"

text \<open>\<^verbatim>\<open>x || 1\<close> on a finite number: zero is the only falsy one.\<close>

definition or_one :: "real \<Rightarrow> real" where
  "or_one x = (if x \<noteq> 0 then x else 1)"

text \<open>\<^verbatim>\<open>series[0]?.value ?? 1\<close>.\<close>

definition firstValueOr1 :: "PricePoint list \<Rightarrow> real" where
  "firstValueOr1 series = (case series of [] \<Rightarrow> 1 | p # _ \<Rightarrow> value_of p)"

definition startsOf :: "series_record \<Rightarrow> (string \<rightharpoonup> real)" where
  "startsOf entries = fold (\<lambda>(key, series) m. m(key \<mapsto> firstValueOr1 series)) entries Map.empty"

definition lookupOf :: "series_record \<Rightarrow> (string \<rightharpoonup> PricePoint list)" where
  "lookupOf entries = fold (\<lambda>(k, series) m. m(k \<mapsto> series)) entries Map.empty"

text \<open>The loop of \<^verbatim>\<open>lookupValue\<close>, which stops at the first later point.\<close>

fun lookupLoop :: "PricePoint list \<Rightarrow> isodate \<Rightarrow> real option \<Rightarrow> real option" where
  "lookupLoop [] target price = price"
| "lookupLoop (point # rest) target price =
     (if date point \<le> target then lookupLoop rest target (Some (value_of point))
      else price)"

definition lookupValue :: "PricePoint list option \<Rightarrow> isodate \<Rightarrow> real option" where
  "lookupValue series target =
     (case series of None \<Rightarrow> None | Some s \<Rightarrow> lookupLoop s target None)"

definition rebase :: "ViewMode \<Rightarrow> real \<Rightarrow> real \<Rightarrow> real" where
  "rebase viewMode v start = (if viewMode = ViewIndexed then (v / start - 1) * 100 else v)"

text \<open>The body of the two \<^verbatim>\<open>forEach\<close> loops over the keys, writing field \<open>pre @ key\<close>.\<close>

definition seriesStep ::
  "ViewMode \<Rightarrow> (string \<rightharpoonup> PricePoint list) \<Rightarrow> (string \<rightharpoonup> real) \<Rightarrow> string \<Rightarrow> isodate
     \<Rightarrow> string \<Rightarrow> row \<Rightarrow> row" where
  "seriesStep viewMode lookup starts pre d key r =
     (let val = lookupValue (lookup key) d;
          start = (case starts key of None \<Rightarrow> 1 | Some s \<Rightarrow> or_one s)
      in case val of
           None \<Rightarrow> r
         | Some v \<Rightarrow> r(pre @ key \<mapsto> NumCell (rebase viewMode v start)))"

definition buildChartData ::
  "PortfolioPoint list \<Rightarrow> series_record \<Rightarrow> series_record \<Rightarrow> ViewMode \<Rightarrow> row list" where
  "buildChartData portfolio benchmarks overlays viewMode =
     (if portfolio = [] then []
      else
        let baseStart = or_one (value_of (portfolio ! 0));
            benchmarkStarts = startsOf benchmarks;
            overlayStarts = startsOf overlays;
            benchLookup = lookupOf benchmarks;
            overlayLookup = lookupOf overlays
        in map (\<lambda>p.
                  let r0 = [''date'' \<mapsto> DateCell (date p)];
                      r1 = r0(''Portfolio'' \<mapsto> NumCell (rebase viewMode (value_of p) baseStart));
                      r2 = fold (seriesStep viewMode benchLookup benchmarkStarts [] (date p))
                             (map fst benchmarks) r1
                  in fold (seriesStep viewMode overlayLookup overlayStarts ''Overlay-'' (date p))
                       (map fst overlays) r2)
               portfolio)"

section \<open>Holdings in the window\<close>

fun findPositionLoop ::
  "PositionState list \<Rightarrow> Date \<Rightarrow> PositionState option \<Rightarrow> PositionState option" where
  "findPositionLoop [] target current = current"
| "findPositionLoop (pos # rest) target current =
     (if parseDate (pos_date pos) \<le> target then findPositionLoop rest target (Some pos)
      else current)"

definition findPositionAt :: "PositionState list \<Rightarrow> Date \<Rightarrow> PositionState option" where
  "findPositionAt ps target = findPositionLoop ps target None"

fun priceLoop :: "PricePoint list \<Rightarrow> Date \<Rightarrow> real option \<Rightarrow> real option" where
  "priceLoop [] target price = price"
| "priceLoop (point # rest) target price =
     (if parseDate (date point) \<le> target then priceLoop rest target (Some (value_of point))
      else price)"

definition priceAt :: "PricePoint list option \<Rightarrow> Date \<Rightarrow> real option" where
  "priceAt series target =
     (case series of
        None \<Rightarrow> None
      | Some s \<Rightarrow> if s = [] then None else priceLoop s target None)"

text \<open>\<^verbatim>\<open>state?.shares[symbol] ?? 0\<close>.\<close>

definition sharesOf :: "PositionState option \<Rightarrow> string \<Rightarrow> real" where
  "sharesOf state smb =
     (case state of
        None \<Rightarrow> 0
      | Some s \<Rightarrow> (case pos_shares s smb of None \<Rightarrow> 0 | Some n \<Rightarrow> n))"

text \<open>The body of the loop over the holdings: the row pushed for one holding.\<close>

definition holdingRow :: "PerformanceResponse \<Rightarrow> Date \<Rightarrow> Date \<Rightarrow> HoldingSummary \<Rightarrow> HoldingSummary" where
  "holdingRow payload start end_d holding =
     (let ps = positions payload;
          startState = findPositionAt ps start;
          endState = (case findPositionAt ps end_d of
                        Some s \<Rightarrow> Some s
                      | None \<Rightarrow> if ps = [] then None else Some (ps ! (length ps - 1)));
          startShares = sharesOf startState (symbol holding);
          endShares = sharesOf endState (symbol holding);
          series = price_series payload (symbol holding);
          startPrice = (case priceAt series start of Some p \<Rightarrow> p | None \<Rightarrow> 0);
          endPrice = (case priceAt series end_d of Some p \<Rightarrow> p | None \<Rightarrow> startPrice);
          startValue = startShares * startPrice;
          endValue = endShares * endPrice;
          gainAbs = endValue - startValue;
          gainPct = (if 0 < startValue then Some (gainAbs / startValue) else None)
      in holding\<lparr> shares := endShares, current_value := endValue,
                  gain_abs := Some gainAbs, gain_pct := gainPct \<rparr>)"

text \<open>
  \<^verbatim>\<open>results.sort((a, b) => b.current_value - a.current_value)\<close>: a stable sort,
  largest value first.
\<close>

definition sortByValueDesc :: "HoldingSummary list \<Rightarrow> HoldingSummary list" where
  "sortByValueDesc results = sort_key (\<lambda>h. - current_value h) results"

definition computeHoldingPerformance ::
  "PerformanceResponse \<Rightarrow> Date \<Rightarrow> Date \<Rightarrow> HoldingSummary list" where
  "computeHoldingPerformance payload start end_d =
     (if positions payload = [] then []
      else sortByValueDesc (map (holdingRow payload start end_d) (holdings payload)))"

section \<open>The aligned returns, as described\<close>

text \<open>
  The value the benchmark has at a date is the value of its last point with that date.
  A consecutive pair of portfolio samples \<open>i - 1\<close>, \<open>i\<close> qualifies when the benchmark has
  a value at both dates and the two previous values are positive.
\<close>

definition benchValueAt :: "PricePoint list \<Rightarrow> isodate \<Rightarrow> real option" where
  "benchValueAt benchmark d =
     (let hits = filter (\<lambda>b. date b = d) benchmark
      in if hits = [] then None else Some (value_of (last hits)))"

definition pairQualifies :: "PortfolioPoint list \<Rightarrow> PricePoint list \<Rightarrow> nat \<Rightarrow> bool" where
  "pairQualifies portfolio benchmark i =
     (case (benchValueAt benchmark (date (portfolio ! i)),
            benchValueAt benchmark (date (portfolio ! (i - 1)))) of
        (Some benchVal, Some benchPrev) \<Rightarrow> 0 < value_of (portfolio ! (i - 1)) \<and> 0 < benchPrev
      | _ \<Rightarrow> False)"

definition portReturnAt :: "PortfolioPoint list \<Rightarrow> nat \<Rightarrow> real" where
  "portReturnAt portfolio i = value_of (portfolio ! i) / value_of (portfolio ! (i - 1)) - 1"

definition benchReturnAt :: "PortfolioPoint list \<Rightarrow> PricePoint list \<Rightarrow> nat \<Rightarrow> real" where
  "benchReturnAt portfolio benchmark i =
     the (benchValueAt benchmark (date (portfolio ! i)))
       / the (benchValueAt benchmark (date (portfolio ! (i - 1)))) - 1"

section \<open>Returns, deviation and span, as described\<close>

text \<open>
  The daily returns are \<open>curr / prev - 1\<close> over the consecutive pairs whose previous value
  is positive; the population standard deviation divides by the number of values; the
  span of a series is the number of calendar days from its first to its last date.
\<close>

definition returnsOfPairs :: "PortfolioPoint list \<Rightarrow> real list" where
  "returnsOfPairs series =
     map (\<lambda>i. value_of (series ! i) / value_of (series ! (i - 1)) - 1)
       (filter (\<lambda>i. 0 < value_of (series ! (i - 1))) [1 ..< length series])"

definition mean :: "real list \<Rightarrow> real" where
  "mean xs = sum_list xs / real (length xs)"

definition populationStdDev :: "real list \<Rightarrow> real" where
  "populationStdDev xs = sqrt ((\<Sum>x\<leftarrow>xs. (x - mean xs)\<^sup>2) / real (length xs))"

definition daySpan :: "PortfolioPoint list \<Rightarrow> int" where
  "daySpan series = date (last series) - date (hd series)"

section \<open>A price series without a start price\<close>

text \<open>
  A holding's price series has no observation at or before the window start when it is
  absent or all of its points are dated after the start.
\<close>

definition noObservationAtOrBefore :: "PricePoint list option \<Rightarrow> Date \<Rightarrow> bool" where
  "noObservationAtOrBefore series start =
     (case series of
        None \<Rightarrow> True
      | Some s \<Rightarrow> (\<forall>pt \<in> set s. start < parseDate (date pt)))"

section \<open>The value carried to a chart row\<close>

text \<open>
  The first point of a series is the one carried forward to a date when it is dated at or
  before that date and the next point, if there is one, is dated after it.
\<close>

definition carriedFirst :: "PricePoint list \<Rightarrow> isodate \<Rightarrow> bool" where
  "carriedFirst series d =
     (case series of
        [] \<Rightarrow> False
      | pt # rest \<Rightarrow> date pt \<le> d \<and> (rest = [] \<or> d < date (hd rest)))"

section \<open>Short series\<close>

text \<open>
  C5. For every portfolio series of length 0 or 1, \<open>computeMetrics\<close> returns the record
  in which every field (totalReturn, totalAbs, annualized, volatility, maxDrawdown,
  sharpe, beta, correlation) is null.
\<close>

theorem computeMetrics_short_all_null:
  assumes "length series < 2"
  shows "computeMetrics series = emptyMetrics
       \<and> totalReturn (computeMetrics series) = None
       \<and> totalAbs (computeMetrics series) = None
       \<and> annualized (computeMetrics series) = None
       \<and> volatility (computeMetrics series) = None
       \<and> maxDrawdown (computeMetrics series) = None
       \<and> sharpe (computeMetrics series) = None
       \<and> beta (computeMetrics series) = None
       \<and> correlation (computeMetrics series) = None"
  using assms by (simp add: computeMetrics_def emptyMetrics_def)

theorem computeMetrics_short_all_null_witness:
  "length [\<lparr>date = 19000, value_of = 250, equity = 200, cash = 50\<rparr>] < 2
   \<and> computeMetrics [\<lparr>date = 19000, value_of = 250, equity = 200, cash = 50\<rparr>] = emptyMetrics
   \<and> maxDrawdown (computeMetrics [\<lparr>date = 19000, value_of = 250, equity = 200, cash = 50\<rparr>])
       = None"
proof -
  have short: "length [\<lparr>date = 19000, value_of = 250, equity = 200, cash = 50\<rparr>] < 2"
    by simp
  from computeMetrics_short_all_null [OF short] short show ?thesis
    by blast
qed

section \<open>The three-point scenario\<close>

text \<open>
  C4. For the daily series with values 100, 110, 99, \<open>computeMetrics\<close> returns
  totalReturn = -0.01, totalAbs = -1, maxDrawdown = 0.10 (the drop from the peak 110 to
  99) and annualized = null, the window spanning two days.
\<close>

theorem computeMetrics_scenario_100_110_99:
  "totalReturn (computeMetrics
     [\<lparr>date = d, value_of = 100, equity = e1, cash = c1\<rparr>,
      \<lparr>date = d + 1, value_of = 110, equity = e2, cash = c2\<rparr>,
      \<lparr>date = d + 2, value_of = 99, equity = e3, cash = c3\<rparr>]) = Some (Num (- 1 / 100))
   \<and> totalAbs (computeMetrics
     [\<lparr>date = d, value_of = 100, equity = e1, cash = c1\<rparr>,
      \<lparr>date = d + 1, value_of = 110, equity = e2, cash = c2\<rparr>,
      \<lparr>date = d + 2, value_of = 99, equity = e3, cash = c3\<rparr>]) = Some (Num (- 1))
   \<and> maxDrawdown (computeMetrics
     [\<lparr>date = d, value_of = 100, equity = e1, cash = c1\<rparr>,
      \<lparr>date = d + 1, value_of = 110, equity = e2, cash = c2\<rparr>,
      \<lparr>date = d + 2, value_of = 99, equity = e3, cash = c3\<rparr>]) = Some (Num (1 / 10))
   \<and> annualized (computeMetrics
     [\<lparr>date = d, value_of = 100, equity = e1, cash = c1\<rparr>,
      \<lparr>date = d + 1, value_of = 110, equity = e2, cash = c2\<rparr>,
      \<lparr>date = d + 2, value_of = 99, equity = e3, cash = c3\<rparr>]) = None"
  by (simp add: computeMetrics_def Let_def parseDate_def computeMaxDrawdown_def
        drawdownStep_def js_div_def)

theorem computeMetrics_scenario_100_110_99_witness:
  "totalReturn (computeMetrics
     [\<lparr>date = 19000, value_of = 100, equity = 100, cash = 0\<rparr>,
      \<lparr>date = 19000 + 1, value_of = 110, equity = 110, cash = 0\<rparr>,
      \<lparr>date = 19000 + 2, value_of = 99, equity = 99, cash = 0\<rparr>]) = Some (Num (- 1 / 100))
   \<and> maxDrawdown (computeMetrics
     [\<lparr>date = 19000, value_of = 100, equity = 100, cash = 0\<rparr>,
      \<lparr>date = 19000 + 1, value_of = 110, equity = 110, cash = 0\<rparr>,
      \<lparr>date = 19000 + 2, value_of = 99, equity = 99, cash = 0\<rparr>]) = Some (Num (1 / 10))"
  using computeMetrics_scenario_100_110_99 [of 19000 100 0 110 0 99 0]
  by blast

section \<open>Aligned returns of portfolio and benchmark\<close>

lemma benchMapOf_snoc:
  "benchMapOf (bs @ [b]) = (benchMapOf bs)(date b \<mapsto> value_of b)"
  by (simp add: benchMapOf_def)

lemma benchValueAt_snoc:
  "benchValueAt (bs @ [b]) d = (if date b = d then Some (value_of b) else benchValueAt bs d)"
  by (simp add: benchValueAt_def Let_def)

lemma benchMapOf_benchValueAt: "benchMapOf bs d = benchValueAt bs d"
proof (induction bs rule: rev_induct)
  case Nil
  show ?case by (simp add: benchMapOf_def benchValueAt_def)
next
  case (snoc b bs)
  then show ?case by (simp add: benchMapOf_snoc benchValueAt_snoc)
qed

lemma benchValueAt_None_iff: "benchValueAt bs d = None \<longleftrightarrow> d \<notin> date ` set bs"
  by (auto simp add: benchValueAt_def Let_def filter_empty_conv)

lemma alignStep_cases:
  "alignStep p (benchMapOf b) i st =
     (if pairQualifies p b i
      then (fst st @ [portReturnAt p i], snd st @ [benchReturnAt p b i])
      else st)"
  by (auto simp add: alignStep_def pairQualifies_def portReturnAt_def benchReturnAt_def
        benchMapOf_benchValueAt Let_def split: option.splits)

lemma fold_alignStep_filter:
  "fold (alignStep p (benchMapOf b)) is st =
     (fst st @ map (portReturnAt p) (filter (pairQualifies p b) is),
      snd st @ map (benchReturnAt p b) (filter (pairQualifies p b) is))"
  by (induction "is" arbitrary: st) (simp_all add: alignStep_cases)

lemma alignedReturns_filter:
  "alignedReturns p b =
     (map (portReturnAt p) (filter (pairQualifies p b) [1 ..< length p]),
      map (benchReturnAt p b) (filter (pairQualifies p b) [1 ..< length p]))"
  by (simp add: alignedReturns_def fold_alignStep_filter)

lemma alignedReturns_same_length:
  "length (fst (alignedReturns p b)) = length (snd (alignedReturns p b))"
  by (simp add: alignedReturns_filter)

lemma pairQualifies_dates:
  "pairQualifies p b i \<Longrightarrow> date (p ! i) \<in> date ` set b \<and> date (p ! (i - 1)) \<in> date ` set b"
  using benchValueAt_None_iff [of b "date (p ! i)"] benchValueAt_None_iff [of b "date (p ! (i - 1))"]
  by (auto simp add: pairQualifies_def split: option.splits)

text \<open>
  C9. The two aligned return arrays built by \<open>computeRelativeMetrics\<close> always have the
  same length, so the guard's length-mismatch arm never holds: the guard is true exactly
  when the arrays are empty, and the early return of null beta and correlation is taken
  exactly then.
\<close>

theorem alignedReturns_equal_length:
  "length (fst (alignedReturns portfolio benchmark))
     = length (snd (alignedReturns portfolio benchmark))
   \<and> ((fst (alignedReturns portfolio benchmark) = []
        \<or> length (fst (alignedReturns portfolio benchmark))
            \<noteq> length (snd (alignedReturns portfolio benchmark)))
       = (fst (alignedReturns portfolio benchmark) = []))
   \<and> computeRelativeMetrics portfolio benchmark
       = (if fst (alignedReturns portfolio benchmark) = []
          then \<lparr> rel_beta = None, rel_correlation = None \<rparr>
          else \<lparr> rel_beta = map_option Num
                   (betaCalc (fst (alignedReturns portfolio benchmark))
                      (snd (alignedReturns portfolio benchmark))),
                 rel_correlation = map_option Num
                   (correlationCalc (fst (alignedReturns portfolio benchmark))
                      (snd (alignedReturns portfolio benchmark))) \<rparr>)"
  using alignedReturns_same_length [of portfolio benchmark]
  by (simp add: computeRelativeMetrics_def Let_def)

theorem alignedReturns_equal_length_witness:
  "alignedReturns
     [\<lparr>date = 19000, value_of = 100, equity = 100, cash = 0\<rparr>,
      \<lparr>date = 19001, value_of = 110, equity = 110, cash = 0\<rparr>,
      \<lparr>date = 19002, value_of = 121, equity = 121, cash = 0\<rparr>]
     [\<lparr>date = 19000, value_of = 50\<rparr>, \<lparr>date = 19001, value_of = 55\<rparr>,
      \<lparr>date = 19002, value_of = 66\<rparr>]
     = ([1 / 10, 1 / 10], [1 / 10, 1 / 5])
   \<and> length (fst (alignedReturns
     [\<lparr>date = 19000, value_of = 100, equity = 100, cash = 0\<rparr>,
      \<lparr>date = 19001, value_of = 110, equity = 110, cash = 0\<rparr>,
      \<lparr>date = 19002, value_of = 121, equity = 121, cash = 0\<rparr>]
     [\<lparr>date = 19000, value_of = 50\<rparr>, \<lparr>date = 19001, value_of = 55\<rparr>,
      \<lparr>date = 19002, value_of = 66\<rparr>]))
     = length (snd (alignedReturns
     [\<lparr>date = 19000, value_of = 100, equity = 100, cash = 0\<rparr>,
      \<lparr>date = 19001, value_of = 110, equity = 110, cash = 0\<rparr>,
      \<lparr>date = 19002, value_of = 121, equity = 121, cash = 0\<rparr>]
     [\<lparr>date = 19000, value_of = 50\<rparr>, \<lparr>date = 19001, value_of = 55\<rparr>,
      \<lparr>date = 19002, value_of = 66\<rparr>]))"
proof -
  have "alignedReturns
     [\<lparr>date = 19000, value_of = 100, equity = 100, cash = 0\<rparr>,
      \<lparr>date = 19001, value_of = 110, equity = 110, cash = 0\<rparr>,
      \<lparr>date = 19002, value_of = 121, equity = 121, cash = 0\<rparr>]
     [\<lparr>date = 19000, value_of = 50\<rparr>, \<lparr>date = 19001, value_of = 55\<rparr>,
      \<lparr>date = 19002, value_of = 66\<rparr>]
     = ([1 / 10, 1 / 10], [1 / 10, 1 / 5])"
    by (simp add: alignedReturns_def alignStep_def benchMapOf_def upt_rec)
  then show ?thesis
    using alignedReturns_equal_length [of "[\<lparr>date = 19000, value_of = 100, equity = 100, cash = 0\<rparr>,
      \<lparr>date = 19001, value_of = 110, equity = 110, cash = 0\<rparr>,
      \<lparr>date = 19002, value_of = 121, equity = 121, cash = 0\<rparr>]"
      "[\<lparr>date = 19000, value_of = 50\<rparr>, \<lparr>date = 19001, value_of = 55\<rparr>,
      \<lparr>date = 19002, value_of = 66\<rparr>]"]
    by blast
qed

text \<open>
  C2, as amended. The aligned returns are those of the consecutive portfolio samples
  \<open>i - 1\<close>, \<open>i\<close> that qualify, in order, and a qualifying pair has both its dates among
  the benchmark's dates. When no consecutive pair qualifies, beta and correlation are null.
  In the scenario of three portfolio samples whose middle date the benchmark lacks, both
  consecutive pairs touch the missing date: no pair contributes and beta and
  correlation are null.
\<close>

theorem alignedReturns_date_keyed:
  "alignedReturns portfolio benchmark =
     (map (portReturnAt portfolio)
        (filter (pairQualifies portfolio benchmark) [1 ..< length portfolio]),
      map (benchReturnAt portfolio benchmark)
        (filter (pairQualifies portfolio benchmark) [1 ..< length portfolio]))
   \<and> (\<forall>i. pairQualifies portfolio benchmark i \<longrightarrow>
          date (portfolio ! i) \<in> date ` set benchmark
          \<and> date (portfolio ! (i - 1)) \<in> date ` set benchmark)
   \<and> ((\<forall>i \<in> {1 ..< length portfolio}. \<not> pairQualifies portfolio benchmark i) \<longrightarrow>
        computeRelativeMetrics portfolio benchmark
          = \<lparr> rel_beta = None, rel_correlation = None \<rparr>)
   \<and> (length portfolio = 3 \<and> date (portfolio ! 1) \<notin> date ` set benchmark \<longrightarrow>
        alignedReturns portfolio benchmark = ([], [])
        \<and> computeRelativeMetrics portfolio benchmark
            = \<lparr> rel_beta = None, rel_correlation = None \<rparr>)"
proof (intro conjI impI allI)
  show "alignedReturns portfolio benchmark =
     (map (portReturnAt portfolio)
        (filter (pairQualifies portfolio benchmark) [1 ..< length portfolio]),
      map (benchReturnAt portfolio benchmark)
        (filter (pairQualifies portfolio benchmark) [1 ..< length portfolio]))"
    by (rule alignedReturns_filter)
next
  fix i assume "pairQualifies portfolio benchmark i"
  then show "date (portfolio ! i) \<in> date ` set benchmark"
    and "date (portfolio ! (i - 1)) \<in> date ` set benchmark"
    using pairQualifies_dates by blast+
next
  assume none: "\<forall>i \<in> {1 ..< length portfolio}. \<not> pairQualifies portfolio benchmark i"
  then have "filter (pairQualifies portfolio benchmark) [1 ..< length portfolio] = []"
    by (simp add: filter_empty_conv)
  then show "computeRelativeMetrics portfolio benchmark
          = \<lparr> rel_beta = None, rel_correlation = None \<rparr>"
    by (simp add: computeRelativeMetrics_def alignedReturns_filter)
next
  assume sc: "length portfolio = 3 \<and> date (portfolio ! 1) \<notin> date ` set benchmark"
  have "\<not> pairQualifies portfolio benchmark i" if "i \<in> {1 ..< length portfolio}" for i
  proof -
    from that sc have "i = 1 \<or> i = 2" by auto
    then show ?thesis using sc pairQualifies_dates [of portfolio benchmark i] by auto
  qed
  then have e: "filter (pairQualifies portfolio benchmark) [1 ..< length portfolio] = []"
    by (auto simp add: filter_empty_conv)
  show "alignedReturns portfolio benchmark = ([], [])"
    using e by (simp add: alignedReturns_filter)
  show "computeRelativeMetrics portfolio benchmark
            = \<lparr> rel_beta = None, rel_correlation = None \<rparr>"
    using e by (simp add: computeRelativeMetrics_def alignedReturns_filter)
qed


theorem alignedReturns_date_keyed_witness:
  "length [\<lparr>date = 19000, value_of = 200, equity = 150, cash = 50\<rparr>,
      \<lparr>date = 19001, value_of = 210, equity = 160, cash = 50\<rparr>,
      \<lparr>date = 19004, value_of = 190, equity = 140, cash = 50\<rparr>] = 3
   \<and> date ([\<lparr>date = 19000, value_of = 200, equity = 150, cash = 50\<rparr>,
      \<lparr>date = 19001, value_of = 210, equity = 160, cash = 50\<rparr>,
      \<lparr>date = 19004, value_of = 190, equity = 140, cash = 50\<rparr>] ! 1)
       \<notin> date ` set [\<lparr>date = 19000, value_of = 400\<rparr>, \<lparr>date = 19004, value_of = 410\<rparr>]
   \<and> alignedReturns
       [\<lparr>date = 19000, value_of = 200, equity = 150, cash = 50\<rparr>,
        \<lparr>date = 19001, value_of = 210, equity = 160, cash = 50\<rparr>,
        \<lparr>date = 19004, value_of = 190, equity = 140, cash = 50\<rparr>]
       [\<lparr>date = 19000, value_of = 400\<rparr>, \<lparr>date = 19004, value_of = 410\<rparr>] = ([], [])
   \<and> computeRelativeMetrics
       [\<lparr>date = 19000, value_of = 200, equity = 150, cash = 50\<rparr>,
        \<lparr>date = 19001, value_of = 210, equity = 160, cash = 50\<rparr>,
        \<lparr>date = 19004, value_of = 190, equity = 140, cash = 50\<rparr>]
       [\<lparr>date = 19000, value_of = 400\<rparr>, \<lparr>date = 19004, value_of = 410\<rparr>]
       = \<lparr> rel_beta = None, rel_correlation = None \<rparr>"
proof -
  have sc: "length [\<lparr>date = 19000, value_of = 200, equity = 150, cash = 50\<rparr>,
      \<lparr>date = 19001, value_of = 210, equity = 160, cash = 50\<rparr>,
      \<lparr>date = 19004, value_of = 190, equity = 140, cash = 50\<rparr>] = 3
   \<and> date ([\<lparr>date = 19000, value_of = 200, equity = 150, cash = 50\<rparr>,
      \<lparr>date = 19001, value_of = 210, equity = 160, cash = 50\<rparr>,
      \<lparr>date = 19004, value_of = 190, equity = 140, cash = 50\<rparr>] ! 1)
       \<notin> date ` set [\<lparr>date = 19000, value_of = 400\<rparr>, \<lparr>date = 19004, value_of = 410\<rparr>]"
    by simp
  from alignedReturns_date_keyed [of "[\<lparr>date = 19000, value_of = 200, equity = 150, cash = 50\<rparr>,
        \<lparr>date = 19001, value_of = 210, equity = 160, cash = 50\<rparr>,
        \<lparr>date = 19004, value_of = 190, equity = 140, cash = 50\<rparr>]"
       "[\<lparr>date = 19000, value_of = 400\<rparr>, \<lparr>date = 19004, value_of = 410\<rparr>]"] sc
  show ?thesis by blast
qed

text \<open>
  The scenario of C2 on concrete data: portfolio dates 1, 2, 3 and benchmark dates 1, 3.
  No return over the span from day 1 to day 3 is formed.
\<close>

theorem alignedReturns_gap_counterexample:
  "alignedReturns
     [\<lparr>date = 1, value_of = 100, equity = 100, cash = 0\<rparr>,
      \<lparr>date = 2, value_of = 110, equity = 110, cash = 0\<rparr>,
      \<lparr>date = 3, value_of = 121, equity = 121, cash = 0\<rparr>]
     [\<lparr>date = 1, value_of = 50\<rparr>, \<lparr>date = 3, value_of = 55\<rparr>] = ([], [])
   \<and> computeRelativeMetrics
     [\<lparr>date = 1, value_of = 100, equity = 100, cash = 0\<rparr>,
      \<lparr>date = 2, value_of = 110, equity = 110, cash = 0\<rparr>,
      \<lparr>date = 3, value_of = 121, equity = 121, cash = 0\<rparr>]
     [\<lparr>date = 1, value_of = 50\<rparr>, \<lparr>date = 3, value_of = 55\<rparr>]
     = \<lparr> rel_beta = None, rel_correlation = None \<rparr>"
  by (simp add: computeRelativeMetrics_def alignedReturns_def alignStep_def benchMapOf_def
        upt_rec)

section \<open>Volatility\<close>

lemma fold_plus_sum_list:
  "fold (\<lambda>v sum. sum + g v) xs (a::real) = a + sum_list (map g xs)"
  by (induction xs arbitrary: a) simp_all

lemma reduce_sum_sum_list: "reduce_sum xs = sum_list xs"
  using fold_plus_sum_list [of "\<lambda>v. v" xs 0] by (simp add: reduce_sum_def)

lemma stdDev_population: "xs \<noteq> [] \<Longrightarrow> stdDev xs = populationStdDev xs"
  by (simp add: stdDev_def populationStdDev_def mean_def Let_def reduce_sum_sum_list
        fold_plus_sum_list power2_eq_square)

lemma fold_returnsStep_filter:
  "fold (returnsStep series) is acc
   = acc @ map (\<lambda>i. value_of (series ! i) / value_of (series ! (i - 1)) - 1)
       (filter (\<lambda>i. 0 < value_of (series ! (i - 1))) is)"
  by (induction "is" arbitrary: acc) (simp_all add: returnsStep_def Let_def)

lemma dailyReturns_returnsOfPairs: "dailyReturns series = returnsOfPairs series"
  by (simp add: dailyReturns_def returnsOfPairs_def fold_returnsStep_filter)

text \<open>
  C6. For every series of length at least 2, the volatility field is the population
  standard deviation (dividing by N) of the daily returns, times the square root of 252,
  where a return \<open>curr / prev - 1\<close> is formed only for the consecutive pairs with a positive
  previous value; it is null when there is no such pair.
\<close>

theorem volatility_population_stddev:
  assumes "2 \<le> length series"
  shows "volatility (computeMetrics series) =
           (if returnsOfPairs series = [] then None
            else Some (Num (populationStdDev (returnsOfPairs series) * sqrt 252)))"
  using assms
  by (simp add: computeMetrics_def Let_def dailyReturns_returnsOfPairs stdDev_population)

theorem volatility_population_stddev_witness:
  "2 \<le> length [\<lparr>date = 19000, value_of = 100, equity = 100, cash = 0\<rparr>,
      \<lparr>date = 19001, value_of = 110, equity = 110, cash = 0\<rparr>,
      \<lparr>date = 19002, value_of = 99, equity = 99, cash = 0\<rparr>]
   \<and> returnsOfPairs [\<lparr>date = 19000, value_of = 100, equity = 100, cash = 0\<rparr>,
      \<lparr>date = 19001, value_of = 110, equity = 110, cash = 0\<rparr>,
      \<lparr>date = 19002, value_of = 99, equity = 99, cash = 0\<rparr>] = [1 / 10, - 1 / 10]
   \<and> volatility (computeMetrics [\<lparr>date = 19000, value_of = 100, equity = 100, cash = 0\<rparr>,
      \<lparr>date = 19001, value_of = 110, equity = 110, cash = 0\<rparr>,
      \<lparr>date = 19002, value_of = 99, equity = 99, cash = 0\<rparr>]) = Some (Num (1 / 10 * sqrt 252))
   \<and> 2 \<le> length [\<lparr>date = 19000, value_of = 0, equity = 0, cash = 0\<rparr>,
      \<lparr>date = 19001, value_of = 100, equity = 100, cash = 0\<rparr>,
      \<lparr>date = 19002, value_of = 110, equity = 110, cash = 0\<rparr>]
   \<and> returnsOfPairs [\<lparr>date = 19000, value_of = 0, equity = 0, cash = 0\<rparr>,
      \<lparr>date = 19001, value_of = 100, equity = 100, cash = 0\<rparr>,
      \<lparr>date = 19002, value_of = 110, equity = 110, cash = 0\<rparr>] = [1 / 10]
   \<and> volatility (computeMetrics [\<lparr>date = 19000, value_of = 0, equity = 0, cash = 0\<rparr>,
      \<lparr>date = 19001, value_of = 100, equity = 100, cash = 0\<rparr>,
      \<lparr>date = 19002, value_of = 110, equity = 110, cash = 0\<rparr>]) = Some (Num 0)"
proof -
  have len: "2 \<le> length [\<lparr>date = 19000, value_of = 100, equity = 100, cash = 0\<rparr>,
      \<lparr>date = 19001, value_of = 110, equity = 110, cash = 0\<rparr>,
      \<lparr>date = 19002, value_of = 99, equity = 99, cash = 0\<rparr>]"
    by simp
  have rs: "returnsOfPairs [\<lparr>date = 19000, value_of = 100, equity = 100, cash = 0\<rparr>,
      \<lparr>date = 19001, value_of = 110, equity = 110, cash = 0\<rparr>,
      \<lparr>date = 19002, value_of = 99, equity = 99, cash = 0\<rparr>] = [1 / 10, - 1 / 10]"
    by (simp add: returnsOfPairs_def upt_rec)
  have sd: "populationStdDev [1 / 10, - 1 / 10] = 1 / 10"
    by (simp add: populationStdDev_def mean_def power2_eq_square real_sqrt_divide)
  have len0: "2 \<le> length [\<lparr>date = 19000, value_of = 0, equity = 0, cash = 0\<rparr>,
      \<lparr>date = 19001, value_of = 100, equity = 100, cash = 0\<rparr>,
      \<lparr>date = 19002, value_of = 110, equity = 110, cash = 0\<rparr>]"
    by simp
  have rs0: "returnsOfPairs [\<lparr>date = 19000, value_of = 0, equity = 0, cash = 0\<rparr>,
      \<lparr>date = 19001, value_of = 100, equity = 100, cash = 0\<rparr>,
      \<lparr>date = 19002, value_of = 110, equity = 110, cash = 0\<rparr>] = [1 / 10]"
    by (simp add: returnsOfPairs_def upt_rec)
  have sd0: "populationStdDev [1 / 10] = 0"
    by (simp add: populationStdDev_def mean_def)
  from volatility_population_stddev [OF len] len rs sd
  have v: "volatility (computeMetrics [\<lparr>date = 19000, value_of = 100, equity = 100, cash = 0\<rparr>,
      \<lparr>date = 19001, value_of = 110, equity = 110, cash = 0\<rparr>,
      \<lparr>date = 19002, value_of = 99, equity = 99, cash = 0\<rparr>]) = Some (Num (1 / 10 * sqrt 252))"
    by simp
  from volatility_population_stddev [OF len0] len0 rs0 sd0
  have v0: "volatility (computeMetrics [\<lparr>date = 19000, value_of = 0, equity = 0, cash = 0\<rparr>,
      \<lparr>date = 19001, value_of = 100, equity = 100, cash = 0\<rparr>,
      \<lparr>date = 19002, value_of = 110, equity = 110, cash = 0\<rparr>]) = Some (Num 0)"
    by simp
  from len rs v len0 rs0 v0 show ?thesis
    by blast
qed

section \<open>Annualized return\<close>

lemma parseDate_diff_days:
  "real_of_int (parseDate b - parseDate a) / (1000 * 60 * 60 * 24) = real_of_int (b - a)"
proof -
  have "parseDate b - parseDate a = 86400000 * (b - a)"
    by (simp add: parseDate_def algebra_simps)
  then show ?thesis by simp
qed

lemma exponent_integral_iff:
  assumes "0 < (d::int)"
  shows "(of_int \<lfloor>365 / real_of_int d\<rfloor> = 365 / real_of_int d) = (d dvd 365)"
proof
  define n where "n = \<lfloor>365 / real_of_int d\<rfloor>"
  assume "real_of_int \<lfloor>365 / real_of_int d\<rfloor> = 365 / real_of_int d"
  then have "real_of_int n = 365 / real_of_int d"
    by (simp only: n_def)
  then have "real_of_int n * real_of_int d = 365"
    using assms by (simp add: field_simps)
  then have "real_of_int (n * d) = real_of_int 365"
    by simp
  then have "n * d = 365"
    by (simp only: of_int_eq_iff)
  then show "d dvd 365"
    by (metis dvd_triv_right)
next
  assume "d dvd 365"
  then obtain k where k: "365 = d * k" by (auto simp add: dvd_def)
  then have "real_of_int 365 = real_of_int d * real_of_int k"
    by (simp only: of_int_mult)
  then have "365 / real_of_int d = real_of_int k"
    using assms by (simp add: field_simps)
  then show "real_of_int \<lfloor>365 / real_of_int d\<rfloor> = 365 / real_of_int d"
    by simp
qed

lemma exponent_floor:
  "0 < (d::int) \<Longrightarrow> \<lfloor>365 / real_of_int d\<rfloor> = 365 div d"
  using floor_divide_of_int_eq [of 365 d, where ?'a = real] by simp

lemma js_pow_nonneg_base:
  "0 \<le> b \<Longrightarrow> 0 < e \<Longrightarrow> js_pow b e = Num (b powr e)"
  by (simp add: js_pow_def)

lemma js_pow_neg_base:
  assumes b: "b < 0" and d: "0 < d"
  shows "js_pow b (365 / real_of_int d)
     = (if d dvd 365 then Num (b ^ nat (365 div d)) else NaN)"
proof -
  have e: "365 / real_of_int d \<noteq> 0" using d by simp
  have nn: "0 \<le> 365 div d" using d by (simp add: pos_imp_zdiv_nonneg_iff)
  have "js_pow b (365 / real_of_int d)
      = (if of_int \<lfloor>365 / real_of_int d\<rfloor> = 365 / real_of_int d
         then Num (b powi \<lfloor>365 / real_of_int d\<rfloor>) else NaN)"
    using b e unfolding js_pow_def by (simp only: if_False not_less_iff_gr_or_eq simp_thms) auto
  also have "\<dots> = (if d dvd 365 then Num (b powi \<lfloor>365 / real_of_int d\<rfloor>) else NaN)"
    by (simp only: exponent_integral_iff [OF d])
  also have "\<dots> = (if d dvd 365 then Num (b powi (365 div d)) else NaN)"
    by (simp only: exponent_floor [OF d])
  also have "b powi (365 div d) = b ^ nat (365 div d)"
    using nn by (simp add: power_int_def)
  finally show ?thesis .
qed

text \<open>
  C7. For every series of length at least 2, totalReturn is defined exactly when the
  first value is positive, and annualized is defined exactly when totalReturn is defined
  and \<open>days\<close> is at least 30, where \<open>days\<close> is the number of calendar days between the
  first and the last sample date; otherwise it is null. When defined it is
  \<open>(1 + totalReturn) ^ (365 / days) - 1\<close>: the real power when the last value is not
  negative; when the last value is negative, the integer power if \<open>days\<close> divides 365,
  and NaN if it does not.
\<close>

theorem annualized_calendar_span:
  assumes "2 \<le> length series"
  shows "totalReturn (computeMetrics series) =
           (if 0 < value_of (hd series)
            then Some (Num (value_of (last series) / value_of (hd series) - 1)) else None)
       \<and> (annualized (computeMetrics series) \<noteq> None)
           = (totalReturn (computeMetrics series) \<noteq> None \<and> 30 \<le> daySpan series)
       \<and> (0 < value_of (hd series) \<and> 0 \<le> value_of (last series) \<and> 30 \<le> daySpan series \<longrightarrow>
            annualized (computeMetrics series)
              = Some (Num ((1 + (value_of (last series) / value_of (hd series) - 1))
                             powr (365 / real_of_int (daySpan series)) - 1)))
       \<and> (0 < value_of (hd series) \<and> value_of (last series) < 0 \<and> 30 \<le> daySpan series \<longrightarrow>
            annualized (computeMetrics series)
              = Some (if daySpan series dvd 365
                      then Num ((1 + (value_of (last series) / value_of (hd series) - 1))
                                  ^ nat (365 div daySpan series) - 1)
                      else NaN))"
proof -
  from assms have ne: "series \<noteq> []" by auto
  then have h: "series ! 0 = hd series"
    and l: "series ! (length series - Suc 0) = last series"
    by (simp_all add: hd_conv_nth last_conv_nth)
  have ann: "annualized (computeMetrics series) =
           (if 0 < value_of (hd series) \<and> 30 \<le> daySpan series
            then Some (js_minus (js_pow (1 + (value_of (last series) / value_of (hd series) - 1))
                                  (365 / real_of_int (daySpan series))) 1)
            else None)"
    unfolding computeMetrics_def parseDate_diff_days
    using assms by (simp add: Let_def h l daySpan_def del: of_int_diff)
  have tot: "totalReturn (computeMetrics series) =
           (if 0 < value_of (hd series)
            then Some (Num (value_of (last series) / value_of (hd series) - 1)) else None)"
    using assms by (simp add: computeMetrics_def Let_def h l)
  have iff: "(annualized (computeMetrics series) \<noteq> None)
           = (totalReturn (computeMetrics series) \<noteq> None \<and> 30 \<le> daySpan series)"
    by (simp add: ann tot)
  have pos: "annualized (computeMetrics series)
              = Some (Num ((1 + (value_of (last series) / value_of (hd series) - 1))
                             powr (365 / real_of_int (daySpan series)) - 1))"
    if "0 < value_of (hd series) \<and> 0 \<le> value_of (last series) \<and> 30 \<le> daySpan series"
  proof -
    from that have b: "0 \<le> 1 + (value_of (last series) / value_of (hd series) - 1)"
      by simp
    from that have e: "0 < 365 / real_of_int (daySpan series)"
      by simp
    from that show ?thesis
      by (simp only: ann js_pow_nonneg_base [OF b e] js_minus.simps if_True simp_thms)
  qed
  have neg: "annualized (computeMetrics series)
              = Some (if daySpan series dvd 365
                      then Num ((1 + (value_of (last series) / value_of (hd series) - 1))
                                  ^ nat (365 div daySpan series) - 1)
                      else NaN)"
    if "0 < value_of (hd series) \<and> value_of (last series) < 0 \<and> 30 \<le> daySpan series"
  proof -
    from that have b: "value_of (last series) / value_of (hd series) < 0"
      by (simp add: divide_neg_pos)
    from that have d: "0 < daySpan series"
      by simp
    from that show ?thesis
      by (simp add: ann js_pow_neg_base [OF b d])
  qed
  from tot iff pos neg show ?thesis by blast
qed

theorem annualized_calendar_span_witness:
  "daySpan [\<lparr>date = 19000, value_of = 100, equity = 90, cash = 10\<rparr>,
      \<lparr>date = 19073, value_of = 200, equity = 90, cash = 10\<rparr>] = 73 \<and> annualized (computeMetrics [\<lparr>date = 19000, value_of = 100, equity = 90, cash = 10\<rparr>,
      \<lparr>date = 19073, value_of = 200, equity = 90, cash = 10\<rparr>]) = Some (Num 31)
   \<and> daySpan [\<lparr>date = 19000, value_of = 100, equity = 90, cash = 10\<rparr>,
      \<lparr>date = 19730, value_of = 400, equity = 90, cash = 10\<rparr>] = 730 \<and> annualized (computeMetrics [\<lparr>date = 19000, value_of = 100, equity = 90, cash = 10\<rparr>,
      \<lparr>date = 19730, value_of = 400, equity = 90, cash = 10\<rparr>]) = Some (Num 1)
   \<and> daySpan [\<lparr>date = 19000, value_of = 100, equity = 90, cash = 10\<rparr>,
      \<lparr>date = 19029, value_of = 121, equity = 90, cash = 10\<rparr>] = 29 \<and> annualized (computeMetrics [\<lparr>date = 19000, value_of = 100, equity = 90, cash = 10\<rparr>,
      \<lparr>date = 19029, value_of = 121, equity = 90, cash = 10\<rparr>]) = None
   \<and> daySpan [\<lparr>date = 19000, value_of = 100, equity = 90, cash = 10\<rparr>,
      \<lparr>date = 19073, value_of = - 200, equity = 90, cash = 10\<rparr>] = 73 \<and> annualized (computeMetrics [\<lparr>date = 19000, value_of = 100, equity = 90, cash = 10\<rparr>,
      \<lparr>date = 19073, value_of = - 200, equity = 90, cash = 10\<rparr>]) = Some (Num (- 33))
   \<and> daySpan [\<lparr>date = 19000, value_of = 100, equity = 90, cash = 10\<rparr>,
      \<lparr>date = 19100, value_of = - 200, equity = 90, cash = 10\<rparr>] = 100 \<and> annualized (computeMetrics [\<lparr>date = 19000, value_of = 100, equity = 90, cash = 10\<rparr>,
      \<lparr>date = 19100, value_of = - 200, equity = 90, cash = 10\<rparr>]) = Some NaN"
proof -
  have la: "2 \<le> length [\<lparr>date = 19000, value_of = 100, equity = 90, cash = 10\<rparr>,
      \<lparr>date = 19073, value_of = 200, equity = 90, cash = 10\<rparr>]" by simp
  have lb: "2 \<le> length [\<lparr>date = 19000, value_of = 100, equity = 90, cash = 10\<rparr>,
      \<lparr>date = 19730, value_of = 400, equity = 90, cash = 10\<rparr>]" by simp
  have lc: "2 \<le> length [\<lparr>date = 19000, value_of = 100, equity = 90, cash = 10\<rparr>,
      \<lparr>date = 19029, value_of = 121, equity = 90, cash = 10\<rparr>]" by simp
  have ld: "2 \<le> length [\<lparr>date = 19000, value_of = 100, equity = 90, cash = 10\<rparr>,
      \<lparr>date = 19073, value_of = - 200, equity = 90, cash = 10\<rparr>]" by simp
  have le: "2 \<le> length [\<lparr>date = 19000, value_of = 100, equity = 90, cash = 10\<rparr>,
      \<lparr>date = 19100, value_of = - 200, equity = 90, cash = 10\<rparr>]" by simp
  have half: "(4::real) powr (1 / 2) = 2"
    by (simp add: powr_half_sqrt)
  have da: "daySpan [\<lparr>date = 19000, value_of = 100, equity = 90, cash = 10\<rparr>,
      \<lparr>date = 19073, value_of = 200, equity = 90, cash = 10\<rparr>] = 73" by (simp add: daySpan_def)
  have db: "daySpan [\<lparr>date = 19000, value_of = 100, equity = 90, cash = 10\<rparr>,
      \<lparr>date = 19730, value_of = 400, equity = 90, cash = 10\<rparr>] = 730" by (simp add: daySpan_def)
  have dc: "daySpan [\<lparr>date = 19000, value_of = 100, equity = 90, cash = 10\<rparr>,
      \<lparr>date = 19029, value_of = 121, equity = 90, cash = 10\<rparr>] = 29" by (simp add: daySpan_def)
  have dd: "daySpan [\<lparr>date = 19000, value_of = 100, equity = 90, cash = 10\<rparr>,
      \<lparr>date = 19073, value_of = - 200, equity = 90, cash = 10\<rparr>] = 73" by (simp add: daySpan_def)
  have de: "daySpan [\<lparr>date = 19000, value_of = 100, equity = 90, cash = 10\<rparr>,
      \<lparr>date = 19100, value_of = - 200, equity = 90, cash = 10\<rparr>] = 100" by (simp add: daySpan_def)
  from annualized_calendar_span [OF la] da
  have a: "annualized (computeMetrics [\<lparr>date = 19000, value_of = 100, equity = 90, cash = 10\<rparr>,
      \<lparr>date = 19073, value_of = 200, equity = 90, cash = 10\<rparr>]) = Some (Num 31)"
    by simp
  from annualized_calendar_span [OF lb] db half
  have b: "annualized (computeMetrics [\<lparr>date = 19000, value_of = 100, equity = 90, cash = 10\<rparr>,
      \<lparr>date = 19730, value_of = 400, equity = 90, cash = 10\<rparr>]) = Some (Num 1)"
    by simp
  from annualized_calendar_span [OF lc] dc
  have c: "annualized (computeMetrics [\<lparr>date = 19000, value_of = 100, equity = 90, cash = 10\<rparr>,
      \<lparr>date = 19029, value_of = 121, equity = 90, cash = 10\<rparr>]) = None"
    by simp
  from annualized_calendar_span [OF ld] dd
  have d: "annualized (computeMetrics [\<lparr>date = 19000, value_of = 100, equity = 90, cash = 10\<rparr>,
      \<lparr>date = 19073, value_of = - 200, equity = 90, cash = 10\<rparr>]) = Some (Num (- 33))"
    by simp
  from annualized_calendar_span [OF le] de
  have e: "annualized (computeMetrics [\<lparr>date = 19000, value_of = 100, equity = 90, cash = 10\<rparr>,
      \<lparr>date = 19100, value_of = - 200, equity = 90, cash = 10\<rparr>]) = Some NaN"
    by simp
  from a b c d e da db dc dd de show ?thesis
    by blast
qed

section \<open>Maximum drawdown\<close>

lemma js_lt_nonpos:
  "js_ge (Num 0) old \<Longrightarrow> js_lt dd old \<Longrightarrow> js_ge (Num 0) dd"
  by (cases dd; cases old) auto

lemma drawdownStep_nonpos:
  "js_ge (Num 0) (snd st) \<Longrightarrow> js_ge (Num 0) (snd (drawdownStep v st))"
  by (auto simp add: drawdownStep_def Let_def intro: js_lt_nonpos)

lemma fold_drawdownStep_nonpos:
  "js_ge (Num 0) (snd st) \<Longrightarrow> js_ge (Num 0) (snd (fold drawdownStep vs st))"
  by (induction vs arbitrary: st) (simp_all add: drawdownStep_nonpos)

lemma js_abs_nonneg: "js_ge (Num 0) n \<Longrightarrow> js_ge (js_abs n) (Num 0)"
  by (cases n) auto

lemma computeMaxDrawdown_nonneg:
  "values \<noteq> [] \<Longrightarrow> \<exists>r. computeMaxDrawdown values = Some r \<and> js_ge r (Num 0)"
  by (simp add: computeMaxDrawdown_def js_abs_nonneg fold_drawdownStep_nonpos)

lemma drawdownStep_at_peak:
  "p \<le> v \<Longrightarrow> drawdownStep v (p, Num 0) = (v, Num 0)"
  by (auto simp add: drawdownStep_def Let_def js_div_def)

lemma fold_drawdownStep_sorted:
  "sorted (p # vs) \<Longrightarrow> snd (fold drawdownStep vs (p, Num 0)) = Num 0"
proof (induction vs arbitrary: p)
  case Nil
  show ?case by simp
next
  case (Cons v vs)
  then have "p \<le> v" and "sorted (v # vs)" by simp_all
  with Cons.IH [of v] show ?case by (simp add: drawdownStep_at_peak)
qed

lemma computeMaxDrawdown_sorted:
  "values \<noteq> [] \<Longrightarrow> sorted values \<Longrightarrow> computeMaxDrawdown values = Some (Num 0)"
proof -
  assume ne: "values \<noteq> []" and s: "sorted values"
  then obtain v vs where vs: "values = v # vs" by (cases "values") auto
  with s have "sorted (v # v # vs)" by simp
  then have "snd (fold drawdownStep (v # vs) (v, Num 0)) = Num 0"
    by (rule fold_drawdownStep_sorted)
  then show ?thesis by (simp add: computeMaxDrawdown_def vs)
qed

lemma drawdownStep_below_peak:
  "0 < m \<Longrightarrow> v \<le> c \<Longrightarrow> c \<le> m \<Longrightarrow>
   drawdownStep v (m, Num ((c - m) / m)) = (m, Num ((v - m) / m))"
  by (auto simp add: drawdownStep_def Let_def js_div_def divide_strict_right_mono
        divide_less_cancel)

lemma fold_drawdownStep_decreasing:
  "0 < m \<Longrightarrow> c \<le> m \<Longrightarrow> sorted (rev (c # vs)) \<Longrightarrow>
   snd (fold drawdownStep vs (m, Num ((c - m) / m))) = Num ((last (c # vs) - m) / m)"
proof (induction vs arbitrary: c)
  case Nil
  show ?case by simp
next
  case (Cons v vs)
  from Cons.prems have vc: "v \<le> c" and s: "sorted (rev (v # vs))"
    by (auto simp add: sorted_append)
  with Cons.prems have vm: "v \<le> m" by simp
  from Cons.IH [OF Cons.prems(1) vm s] Cons.prems vc show ?case
    by (simp add: drawdownStep_below_peak)
qed

lemma decreasing_last_le: "sorted (rev xs) \<Longrightarrow> x \<in> set xs \<Longrightarrow> last xs \<le> x"
  by (induction xs) (auto simp add: sorted_append)

lemma decreasing_le_hd: "sorted (rev xs) \<Longrightarrow> x \<in> set xs \<Longrightarrow> x \<le> hd xs"
  by (cases xs) (auto simp add: sorted_append)

lemma decreasing_Min_Max:
  assumes "xs \<noteq> []" and "sorted (rev xs)"
  shows "Max (set xs) = hd xs" and "Min (set xs) = last xs"
proof -
  show "Max (set xs) = hd xs"
    using assms by (intro Max_eqI) (auto simp add: decreasing_le_hd)
  show "Min (set xs) = last xs"
    using assms by (intro Min_eqI) (auto simp add: decreasing_last_le)
qed

lemma computeMaxDrawdown_decreasing:
  assumes "values \<noteq> []" and "sorted (rev values)" and "0 < hd values"
  shows "computeMaxDrawdown values = Some (Num (1 - Min (set values) / Max (set values)))"
proof -
  from assms(1) obtain v vs where vs: "values = v # vs" by (cases "values") auto
  define l where "l = last values"
  from vs assms have pos: "0 < v" and s: "sorted (rev (v # vs))" by simp_all
  then have s2: "sorted (rev (v # v # vs))" by (simp add: sorted_append)
  have "snd (fold drawdownStep (v # vs) (v, Num ((v - v) / v))) = Num ((last (v # v # vs) - v) / v)"
    by (rule fold_drawdownStep_decreasing [OF pos order_refl s2])
  then have f: "snd (fold drawdownStep values (values ! 0, Num 0)) = Num ((l - v) / v)"
    by (simp add: vs l_def)
  have "l \<le> v"
    using decreasing_last_le [OF assms(2), of v] by (simp add: vs l_def)
  then have "\<bar>(l - v) / v\<bar> = 1 - l / v"
    using pos by (simp add: field_simps abs_if)
  moreover have "Max (set values) = v" and "Min (set values) = l"
    using decreasing_Min_Max [OF assms(1,2)] by (simp_all add: vs l_def)
  ultimately show ?thesis
    using f assms(1) by (simp add: computeMaxDrawdown_def)
qed

text \<open>
  C3, as amended. \<open>computeMaxDrawdown\<close> is defined for every non-empty list of values and
  its result is never negative; it is 0 for a non-decreasing list, in particular for a
  single value; it is \<open>1 - min / max\<close> for a non-increasing list whose first value is
  positive. \<open>computeMetrics\<close> reports it for the series of at least two points; for a
  shorter series the field is null.
\<close>

theorem maxDrawdown_nonneg_and_shapes:
  "(values \<noteq> [] \<longrightarrow> (\<exists>r. computeMaxDrawdown values = Some r \<and> js_ge r (Num 0)))
   \<and> (values \<noteq> [] \<and> sorted values \<longrightarrow> computeMaxDrawdown values = Some (Num 0))
   \<and> (values \<noteq> [] \<and> sorted (rev values) \<and> 0 < hd values \<longrightarrow>
        computeMaxDrawdown values = Some (Num (1 - Min (set values) / Max (set values))))
   \<and> computeMaxDrawdown [v] = Some (Num 0)
   \<and> (2 \<le> length series \<longrightarrow>
        maxDrawdown (computeMetrics series) = computeMaxDrawdown (map value_of series))
   \<and> (length series < 2 \<longrightarrow> maxDrawdown (computeMetrics series) = None)"
proof (intro conjI impI)
  show "\<exists>r. computeMaxDrawdown values = Some r \<and> js_ge r (Num 0)" if "values \<noteq> []"
    using that by (rule computeMaxDrawdown_nonneg)
  show "computeMaxDrawdown values = Some (Num 0)" if "values \<noteq> [] \<and> sorted values"
    using that by (simp add: computeMaxDrawdown_sorted)
  show "computeMaxDrawdown values = Some (Num (1 - Min (set values) / Max (set values)))"
    if "values \<noteq> [] \<and> sorted (rev values) \<and> 0 < hd values"
    using that by (simp add: computeMaxDrawdown_decreasing)
  show "computeMaxDrawdown [v] = Some (Num 0)"
    by (simp add: computeMaxDrawdown_sorted)
  show "maxDrawdown (computeMetrics series) = computeMaxDrawdown (map value_of series)"
    if "2 \<le> length series"
    using that by (simp add: computeMetrics_def Let_def)
  show "maxDrawdown (computeMetrics series) = None" if "length series < 2"
    using that by (simp add: computeMetrics_def emptyMetrics_def)
qed

theorem maxDrawdown_nonneg_and_shapes_witness:
  "(\<exists>r. computeMaxDrawdown [100, 110, 99] = Some r \<and> js_ge r (Num 0))
   \<and> computeMaxDrawdown [100, 100, 120] = Some (Num 0)
   \<and> computeMaxDrawdown [120, 90, 90, 30] = Some (Num (3 / 4))
   \<and> maxDrawdown (computeMetrics
        [\<lparr>date = 19000, value_of = 120, equity = 120, cash = 0\<rparr>,
         \<lparr>date = 19001, value_of = 30, equity = 30, cash = 0\<rparr>]) = Some (Num (3 / 4))
   \<and> maxDrawdown (computeMetrics
        [\<lparr>date = 19000, value_of = 120, equity = 120, cash = 0\<rparr>]) = None"
proof -
  have a: "[100, 110, 99] \<noteq> ([] :: real list)"
    by simp
  have b: "[100, 100, 120] \<noteq> [] \<and> sorted [100, 100, 120 :: real]"
    by simp
  have c: "[120, 90, 90, 30] \<noteq> [] \<and> sorted (rev [120, 90, 90, 30 :: real])
           \<and> 0 < hd [120, 90, 90, 30 :: real]"
    by simp
  have c': "[120, 30] \<noteq> [] \<and> sorted (rev [120, 30 :: real]) \<and> 0 < hd [120, 30 :: real]"
    by simp
  have d: "2 \<le> length [\<lparr>date = 19000, value_of = 120, equity = 120, cash = 0\<rparr>,
         \<lparr>date = 19001, value_of = 30, equity = 30, cash = 0\<rparr>]"
    by simp
  have e: "length [\<lparr>date = 19000, value_of = 120, equity = 120, cash = 0\<rparr>] < 2"
    by simp
  from maxDrawdown_nonneg_and_shapes [of "[100, 110, 99]"] a
  have 1: "\<exists>r. computeMaxDrawdown [100, 110, 99] = Some r \<and> js_ge r (Num 0)"
    by blast
  from maxDrawdown_nonneg_and_shapes [of "[100, 100, 120]"] b
  have 2: "computeMaxDrawdown [100, 100, 120] = Some (Num 0)"
    by blast
  from maxDrawdown_nonneg_and_shapes [of "[120, 90, 90, 30]"] c
  have 3: "computeMaxDrawdown [120, 90, 90, 30] = Some (Num (3 / 4))"
    by simp
  from maxDrawdown_nonneg_and_shapes [of "[120, 30]" _
         "[\<lparr>date = 19000, value_of = 120, equity = 120, cash = 0\<rparr>,
           \<lparr>date = 19001, value_of = 30, equity = 30, cash = 0\<rparr>]"] c' d
  have 4: "maxDrawdown (computeMetrics
        [\<lparr>date = 19000, value_of = 120, equity = 120, cash = 0\<rparr>,
         \<lparr>date = 19001, value_of = 30, equity = 30, cash = 0\<rparr>]) = Some (Num (3 / 4))"
    by simp
  from maxDrawdown_nonneg_and_shapes [of _ _
         "[\<lparr>date = 19000, value_of = 120, equity = 120, cash = 0\<rparr>]"] e
  have 5: "maxDrawdown (computeMetrics
        [\<lparr>date = 19000, value_of = 120, equity = 120, cash = 0\<rparr>]) = None"
    by blast
  from 1 2 3 4 5 show ?thesis by blast
qed

text \<open>
  C3 as stated fails on a single-point series, for which \<open>computeMetrics\<close> reports no
  maxDrawdown, and on a decreasing series of negative values, where the result is 0 and
  \<open>1 - min / max\<close> is \<open>-1\<close>.
\<close>

theorem maxDrawdown_single_point_counterexample:
  "maxDrawdown (computeMetrics [\<lparr>date = 19000, value_of = 120, equity = 120, cash = 0\<rparr>])
     = None
   \<and> computeMaxDrawdown [- 1, - 2] = Some (Num 0)
   \<and> 1 - Min (set [- 1, - 2 :: real]) / Max (set [- 1, - 2 :: real]) = - 1"
  by (simp add: computeMetrics_def emptyMetrics_def computeMaxDrawdown_def drawdownStep_def
        js_div_def)

section \<open>Holdings performance\<close>

lemma priceAt_no_observation:
  "noObservationAtOrBefore series start \<Longrightarrow> priceAt series start = None"
proof (cases series)
  case None
  then show ?thesis by (simp add: priceAt_def)
next
  case (Some s)
  assume "noObservationAtOrBefore series start"
  with Some have "\<forall>pt \<in> set s. start < parseDate (date pt)"
    by (simp add: noObservationAtOrBefore_def)
  then have "priceLoop s start None = None"
    by (cases s) auto
  with Some show ?thesis by (simp add: priceAt_def)
qed

lemma holdingRow_in_result:
  "positions payload \<noteq> [] \<Longrightarrow> holding \<in> set (holdings payload) \<Longrightarrow>
   holdingRow payload start end_d holding \<in> set (computeHoldingPerformance payload start end_d)"
  by (simp add: computeHoldingPerformance_def sortByValueDesc_def)

text \<open>
  C1, as amended. For a holding whose price series has no observation dated at or before
  the window start, the start price is 0 (the end price is not substituted for it): the
  start value is 0, the gain is the whole end value and the percentage gain is null. The
  row is part of the result whenever there are positions.
\<close>

theorem holding_without_start_price:
  assumes "positions payload \<noteq> []"
    and "holding \<in> set (holdings payload)"
    and "noObservationAtOrBefore (price_series payload (symbol holding)) start"
  shows "holdingRow payload start end_d holding
           \<in> set (computeHoldingPerformance payload start end_d)
       \<and> current_value (holdingRow payload start end_d holding)
           = shares (holdingRow payload start end_d holding)
             * (case priceAt (price_series payload (symbol holding)) end_d of
                  Some p \<Rightarrow> p | None \<Rightarrow> 0)
       \<and> gain_abs (holdingRow payload start end_d holding)
           = Some (current_value (holdingRow payload start end_d holding))
       \<and> gain_pct (holdingRow payload start end_d holding) = None"
proof -
  have mem: "holdingRow payload start end_d holding
               \<in> set (computeHoldingPerformance payload start end_d)"
    using assms(1,2) by (rule holdingRow_in_result)
  have none: "priceAt (price_series payload (symbol holding)) start = None"
    using assms(3) by (rule priceAt_no_observation)
  have vals: "current_value (holdingRow payload start end_d holding)
           = shares (holdingRow payload start end_d holding)
             * (case priceAt (price_series payload (symbol holding)) end_d of
                  Some p \<Rightarrow> p | None \<Rightarrow> 0)
       \<and> gain_abs (holdingRow payload start end_d holding)
           = Some (current_value (holdingRow payload start end_d holding))
       \<and> gain_pct (holdingRow payload start end_d holding) = None"
    using none by (simp add: holdingRow_def Let_def split: option.splits)
  from mem vals show ?thesis by blast
qed

theorem holding_without_start_price_witness:
  "positions \<lparr> price_series = [''MSFT'' \<mapsto> [\<lparr>date = 19010, value_of = 50\<rparr>]],
       positions = [\<lparr>pos_date = 18990, pos_shares = [''MSFT'' \<mapsto> 3], pos_cash = 0\<rparr>],
       holdings = [\<lparr>symbol = ''MSFT'', description = ''Microsoft'', shares = 3,
                    current_value = 150, cost_basis = None, gain_abs = None,
                    gain_pct = None\<rparr>] \<rparr> \<noteq> []
   \<and> \<lparr>symbol = ''MSFT'', description = ''Microsoft'', shares = 3,
                    current_value = 150, cost_basis = None, gain_abs = None,
                    gain_pct = None\<rparr> \<in> set (holdings \<lparr> price_series = [''MSFT'' \<mapsto> [\<lparr>date = 19010, value_of = 50\<rparr>]],
       positions = [\<lparr>pos_date = 18990, pos_shares = [''MSFT'' \<mapsto> 3], pos_cash = 0\<rparr>],
       holdings = [\<lparr>symbol = ''MSFT'', description = ''Microsoft'', shares = 3,
                    current_value = 150, cost_basis = None, gain_abs = None,
                    gain_pct = None\<rparr>] \<rparr>)
   \<and> noObservationAtOrBefore (price_series \<lparr> price_series = [''MSFT'' \<mapsto> [\<lparr>date = 19010, value_of = 50\<rparr>]],
       positions = [\<lparr>pos_date = 18990, pos_shares = [''MSFT'' \<mapsto> 3], pos_cash = 0\<rparr>],
       holdings = [\<lparr>symbol = ''MSFT'', description = ''Microsoft'', shares = 3,
                    current_value = 150, cost_basis = None, gain_abs = None,
                    gain_pct = None\<rparr>] \<rparr> (symbol \<lparr>symbol = ''MSFT'', description = ''Microsoft'', shares = 3,
                    current_value = 150, cost_basis = None, gain_abs = None,
                    gain_pct = None\<rparr>)) (parseDate 19000)
   \<and> holdingRow \<lparr> price_series = [''MSFT'' \<mapsto> [\<lparr>date = 19010, value_of = 50\<rparr>]],
       positions = [\<lparr>pos_date = 18990, pos_shares = [''MSFT'' \<mapsto> 3], pos_cash = 0\<rparr>],
       holdings = [\<lparr>symbol = ''MSFT'', description = ''Microsoft'', shares = 3,
                    current_value = 150, cost_basis = None, gain_abs = None,
                    gain_pct = None\<rparr>] \<rparr> (parseDate 19000) (parseDate 19020) \<lparr>symbol = ''MSFT'', description = ''Microsoft'', shares = 3,
                    current_value = 150, cost_basis = None, gain_abs = None,
                    gain_pct = None\<rparr>
       \<in> set (computeHoldingPerformance \<lparr> price_series = [''MSFT'' \<mapsto> [\<lparr>date = 19010, value_of = 50\<rparr>]],
       positions = [\<lparr>pos_date = 18990, pos_shares = [''MSFT'' \<mapsto> 3], pos_cash = 0\<rparr>],
       holdings = [\<lparr>symbol = ''MSFT'', description = ''Microsoft'', shares = 3,
                    current_value = 150, cost_basis = None, gain_abs = None,
                    gain_pct = None\<rparr>] \<rparr> (parseDate 19000) (parseDate 19020))
   \<and> current_value (holdingRow \<lparr> price_series = [''MSFT'' \<mapsto> [\<lparr>date = 19010, value_of = 50\<rparr>]],
       positions = [\<lparr>pos_date = 18990, pos_shares = [''MSFT'' \<mapsto> 3], pos_cash = 0\<rparr>],
       holdings = [\<lparr>symbol = ''MSFT'', description = ''Microsoft'', shares = 3,
                    current_value = 150, cost_basis = None, gain_abs = None,
                    gain_pct = None\<rparr>] \<rparr> (parseDate 19000) (parseDate 19020) \<lparr>symbol = ''MSFT'', description = ''Microsoft'', shares = 3,
                    current_value = 150, cost_basis = None, gain_abs = None,
                    gain_pct = None\<rparr>) = 150
   \<and> gain_abs (holdingRow \<lparr> price_series = [''MSFT'' \<mapsto> [\<lparr>date = 19010, value_of = 50\<rparr>]],
       positions = [\<lparr>pos_date = 18990, pos_shares = [''MSFT'' \<mapsto> 3], pos_cash = 0\<rparr>],
       holdings = [\<lparr>symbol = ''MSFT'', description = ''Microsoft'', shares = 3,
                    current_value = 150, cost_basis = None, gain_abs = None,
                    gain_pct = None\<rparr>] \<rparr> (parseDate 19000) (parseDate 19020) \<lparr>symbol = ''MSFT'', description = ''Microsoft'', shares = 3,
                    current_value = 150, cost_basis = None, gain_abs = None,
                    gain_pct = None\<rparr>) = Some 150
   \<and> gain_pct (holdingRow \<lparr> price_series = [''MSFT'' \<mapsto> [\<lparr>date = 19010, value_of = 50\<rparr>]],
       positions = [\<lparr>pos_date = 18990, pos_shares = [''MSFT'' \<mapsto> 3], pos_cash = 0\<rparr>],
       holdings = [\<lparr>symbol = ''MSFT'', description = ''Microsoft'', shares = 3,
                    current_value = 150, cost_basis = None, gain_abs = None,
                    gain_pct = None\<rparr>] \<rparr> (parseDate 19000) (parseDate 19020) \<lparr>symbol = ''MSFT'', description = ''Microsoft'', shares = 3,
                    current_value = 150, cost_basis = None, gain_abs = None,
                    gain_pct = None\<rparr>) = None"
proof -
  have a: "positions \<lparr> price_series = [''MSFT'' \<mapsto> [\<lparr>date = 19010, value_of = 50\<rparr>]],
       positions = [\<lparr>pos_date = 18990, pos_shares = [''MSFT'' \<mapsto> 3], pos_cash = 0\<rparr>],
       holdings = [\<lparr>symbol = ''MSFT'', description = ''Microsoft'', shares = 3,
                    current_value = 150, cost_basis = None, gain_abs = None,
                    gain_pct = None\<rparr>] \<rparr> \<noteq> []"
    by simp
  have b: "\<lparr>symbol = ''MSFT'', description = ''Microsoft'', shares = 3,
                    current_value = 150, cost_basis = None, gain_abs = None,
                    gain_pct = None\<rparr> \<in> set (holdings \<lparr> price_series = [''MSFT'' \<mapsto> [\<lparr>date = 19010, value_of = 50\<rparr>]],
       positions = [\<lparr>pos_date = 18990, pos_shares = [''MSFT'' \<mapsto> 3], pos_cash = 0\<rparr>],
       holdings = [\<lparr>symbol = ''MSFT'', description = ''Microsoft'', shares = 3,
                    current_value = 150, cost_basis = None, gain_abs = None,
                    gain_pct = None\<rparr>] \<rparr>)"
    by simp
  have c: "noObservationAtOrBefore (price_series \<lparr> price_series = [''MSFT'' \<mapsto> [\<lparr>date = 19010, value_of = 50\<rparr>]],
       positions = [\<lparr>pos_date = 18990, pos_shares = [''MSFT'' \<mapsto> 3], pos_cash = 0\<rparr>],
       holdings = [\<lparr>symbol = ''MSFT'', description = ''Microsoft'', shares = 3,
                    current_value = 150, cost_basis = None, gain_abs = None,
                    gain_pct = None\<rparr>] \<rparr> (symbol \<lparr>symbol = ''MSFT'', description = ''Microsoft'', shares = 3,
                    current_value = 150, cost_basis = None, gain_abs = None,
                    gain_pct = None\<rparr>)) (parseDate 19000)"
    by (simp add: noObservationAtOrBefore_def parseDate_def)
  have d: "current_value (holdingRow \<lparr> price_series = [''MSFT'' \<mapsto> [\<lparr>date = 19010, value_of = 50\<rparr>]],
       positions = [\<lparr>pos_date = 18990, pos_shares = [''MSFT'' \<mapsto> 3], pos_cash = 0\<rparr>],
       holdings = [\<lparr>symbol = ''MSFT'', description = ''Microsoft'', shares = 3,
                    current_value = 150, cost_basis = None, gain_abs = None,
                    gain_pct = None\<rparr>] \<rparr> (parseDate 19000) (parseDate 19020) \<lparr>symbol = ''MSFT'', description = ''Microsoft'', shares = 3,
                    current_value = 150, cost_basis = None, gain_abs = None,
                    gain_pct = None\<rparr>) = 150"
    by (simp add: holdingRow_def Let_def findPositionAt_def priceAt_def sharesOf_def
          parseDate_def)
  from holding_without_start_price [OF a b c, of "parseDate 19020"] a b c d show ?thesis
    by simp
qed

text \<open>
  C1 as stated fails: two shares held throughout, the only price (10) observed after the
  window start. The row shows a gain of 20, the whole end value, not zero.
\<close>

theorem holding_start_price_counterexample: "computeHoldingPerformance
     \<lparr> price_series = [''AAPL'' \<mapsto> [\<lparr>date = 5, value_of = 10\<rparr>]],
       positions = [\<lparr>pos_date = 0, pos_shares = [''AAPL'' \<mapsto> 2], pos_cash = 0\<rparr>],
       holdings = [\<lparr>symbol = ''AAPL'', description = ''Apple'', shares = 2,
                    current_value = 20, cost_basis = None, gain_abs = None,
                    gain_pct = None\<rparr>] \<rparr>
     (parseDate 1) (parseDate 10)
   = [\<lparr>symbol = ''AAPL'', description = ''Apple'', shares = 2,
                    current_value = 20, cost_basis = None, gain_abs = Some 20,
                    gain_pct = None\<rparr>]"
  by (simp add: computeHoldingPerformance_def sortByValueDesc_def holdingRow_def Let_def
        findPositionAt_def priceAt_def sharesOf_def parseDate_def)


text \<open>
  C10. With an empty positions array \<open>computeHoldingPerformance\<close> returns the empty list,
  whatever the holdings and the price series are.
\<close>

theorem computeHoldingPerformance_no_positions:
  assumes "positions payload = []"
  shows "computeHoldingPerformance payload start end_d = []"
  using assms by (simp add: computeHoldingPerformance_def)

theorem computeHoldingPerformance_no_positions_witness:
  "positions \<lparr> price_series = [''MSFT'' \<mapsto> [\<lparr>date = 19010, value_of = 50\<rparr>]],
       positions = [],
       holdings = [\<lparr>symbol = ''MSFT'', description = ''Microsoft'', shares = 3,
                    current_value = 150, cost_basis = None, gain_abs = None,
                    gain_pct = None\<rparr>] \<rparr> = []
   \<and> holdings \<lparr> price_series = [''MSFT'' \<mapsto> [\<lparr>date = 19010, value_of = 50\<rparr>]],
       positions = [],
       holdings = [\<lparr>symbol = ''MSFT'', description = ''Microsoft'', shares = 3,
                    current_value = 150, cost_basis = None, gain_abs = None,
                    gain_pct = None\<rparr>] \<rparr> \<noteq> []
   \<and> computeHoldingPerformance \<lparr> price_series = [''MSFT'' \<mapsto> [\<lparr>date = 19010, value_of = 50\<rparr>]],
       positions = [],
       holdings = [\<lparr>symbol = ''MSFT'', description = ''Microsoft'', shares = 3,
                    current_value = 150, cost_basis = None, gain_abs = None,
                    gain_pct = None\<rparr>] \<rparr> (parseDate 19000) (parseDate 19020) = []"
proof -
  have a: "positions \<lparr> price_series = [''MSFT'' \<mapsto> [\<lparr>date = 19010, value_of = 50\<rparr>]],
       positions = [],
       holdings = [\<lparr>symbol = ''MSFT'', description = ''Microsoft'', shares = 3,
                    current_value = 150, cost_basis = None, gain_abs = None,
                    gain_pct = None\<rparr>] \<rparr> = []"
    by simp
  have b: "holdings \<lparr> price_series = [''MSFT'' \<mapsto> [\<lparr>date = 19010, value_of = 50\<rparr>]],
       positions = [],
       holdings = [\<lparr>symbol = ''MSFT'', description = ''Microsoft'', shares = 3,
                    current_value = 150, cost_basis = None, gain_abs = None,
                    gain_pct = None\<rparr>] \<rparr> \<noteq> []"
    by simp
  from computeHoldingPerformance_no_positions [OF a, of "parseDate 19000" "parseDate 19020"] a b show ?thesis
    by blast
qed

section \<open>Chart rows in indexed mode\<close>

lemma fold_entries_other:
  "k \<notin> fst ` set entries \<Longrightarrow>
   fold (\<lambda>(key, series) m. m(key \<mapsto> f series)) entries m k = m k"
  by (induction entries arbitrary: m) auto

lemma fold_entries_member:
  "distinct (map fst entries) \<Longrightarrow> (k, s) \<in> set entries \<Longrightarrow>
   fold (\<lambda>(key, series) m. m(key \<mapsto> f series)) entries m k = Some (f s)"
proof (induction entries arbitrary: m)
  case Nil
  then show ?case by simp
next
  case (Cons e entries)
  show ?case
  proof (cases "e = (k, s)")
    case True
    with Cons.prems have "k \<notin> fst ` set entries" by auto
    then have "fold (\<lambda>(key, series) m. m(key \<mapsto> f series)) entries (m(k \<mapsto> f s)) k
                 = (m(k \<mapsto> f s)) k"
      by (rule fold_entries_other)
    moreover have "fold (\<lambda>(key, series) m. m(key \<mapsto> f series)) (e # entries) m
                 = fold (\<lambda>(key, series) m. m(key \<mapsto> f series)) entries (m(k \<mapsto> f s))"
      by (simp only: True fold_simps prod.case comp_def)
    ultimately show ?thesis by (simp only: fun_upd_same)
  next
    case False
    with Cons.prems have "distinct (map fst entries)" and "(k, s) \<in> set entries"
      by auto
    then have "fold (\<lambda>(key, series) m. m(key \<mapsto> f series)) entries
                 ((\<lambda>(key, series) m. m(key \<mapsto> f series)) e m) k = Some (f s)"
      by (rule Cons.IH)
    then show ?thesis by (simp only: fold_simps comp_def)
  qed
qed

lemma lookupOf_member:
  "distinct (map fst entries) \<Longrightarrow> (k, s) \<in> set entries \<Longrightarrow> lookupOf entries k = Some s"
  using fold_entries_member [of entries k s "\<lambda>series. series" Map.empty]
  by (simp add: lookupOf_def)

lemma startsOf_member:
  "distinct (map fst entries) \<Longrightarrow> (k, s) \<in> set entries \<Longrightarrow>
   startsOf entries k = Some (firstValueOr1 s)"
  using fold_entries_member [of entries k s firstValueOr1 Map.empty]
  by (simp add: startsOf_def)

lemma seriesStep_other:
  "field \<noteq> pre @ key \<Longrightarrow> seriesStep mode lookup starts pre d key r field = r field"
  by (simp add: seriesStep_def Let_def split: option.splits)

lemma fold_seriesStep_other:
  "field \<notin> (\<lambda>k. pre @ k) ` set keys \<Longrightarrow>
   fold (seriesStep mode lookup starts pre d) keys r field = r field"
  by (induction keys arbitrary: r) (auto simp add: seriesStep_other)

lemma seriesStep_written:
  "lookupValue (lookup key) d = Some v \<Longrightarrow>
   seriesStep mode lookup starts pre d key r (pre @ key)
     = Some (NumCell (rebase mode v (case starts key of None \<Rightarrow> 1 | Some s \<Rightarrow> or_one s)))"
  by (simp add: seriesStep_def Let_def)

lemma fold_seriesStep_written:
  "distinct keys \<Longrightarrow> key \<in> set keys \<Longrightarrow> lookupValue (lookup key) d = Some v \<Longrightarrow>
   fold (seriesStep mode lookup starts pre d) keys r (pre @ key)
     = Some (NumCell (rebase mode v (case starts key of None \<Rightarrow> 1 | Some s \<Rightarrow> or_one s)))"
proof (induction keys arbitrary: r)
  case Nil
  then show ?case by simp
next
  case (Cons k keys)
  show ?case
  proof (cases "k = key")
    case True
    with Cons.prems have "pre @ key \<notin> (\<lambda>k. pre @ k) ` set keys" by auto
    with True Cons.prems(3) show ?thesis
      by (simp add: fold_seriesStep_other seriesStep_written)
  next
    case False
    with Cons show ?thesis by auto
  qed
qed

lemma lookupValue_carriedFirst:
  "carriedFirst (pt # rest) d \<Longrightarrow> lookupValue (Some (pt # rest)) d = Some (value_of pt)"
  by (cases rest) (auto simp add: carriedFirst_def lookupValue_def)

lemma rebase_own_base: "v \<noteq> 0 \<Longrightarrow> rebase ViewIndexed v (or_one v) = 0"
  by (simp add: rebase_def or_one_def)

lemma nth_buildChartData:
  "j < length portfolio \<Longrightarrow>
   buildChartData portfolio benchmarks overlays viewMode ! j =
     fold (seriesStep viewMode (lookupOf overlays) (startsOf overlays) ''Overlay-''
             (date (portfolio ! j)))
       (map fst overlays)
       (fold (seriesStep viewMode (lookupOf benchmarks) (startsOf benchmarks) []
                (date (portfolio ! j)))
          (map fst benchmarks)
          ([''date'' \<mapsto> DateCell (date (portfolio ! j))]
             (''Portfolio'' \<mapsto>
                NumCell (rebase viewMode (value_of (portfolio ! j))
                           (or_one (value_of (portfolio ! 0)))))))"
proof -
  assume j: "j < length portfolio"
  then have "portfolio \<noteq> []" by auto
  with j show ?thesis by (simp add: buildChartData_def Let_def)
qed

lemma overlay_field_not_Portfolio: "''Portfolio'' \<notin> (\<lambda>k. ''Overlay-'' @ k) ` S"
  by auto

text \<open>
  C8, as amended. In indexed mode each series is rebased on its own first value. The first
  chart row has \<open>Portfolio = 0\<close> when the first portfolio value is not zero. A benchmark
  has 0, under its key, in every row to which its first point is the one carried forward,
  when its first value is not zero; so has an overlay, under \<open>Overlay-\<close> and its key.
  This covers a series that starts after the first portfolio date, at its own first row.
  The keys of an object are distinct, and no other series writes the same field.
\<close>

theorem indexed_zero_at_own_first_value:
  assumes "j < length portfolio"
  shows "(value_of (portfolio ! 0) \<noteq> 0 \<and> ''Portfolio'' \<notin> fst ` set benchmarks \<longrightarrow>
            (buildChartData portfolio benchmarks overlays ViewIndexed ! 0) ''Portfolio''
              = Some (NumCell 0))
       \<and> (distinct (map fst benchmarks) \<and> (key, pt # rest) \<in> set benchmarks
            \<and> value_of pt \<noteq> 0 \<and> carriedFirst (pt # rest) (date (portfolio ! j))
            \<and> key \<notin> (\<lambda>k. ''Overlay-'' @ k) ` fst ` set overlays \<longrightarrow>
            (buildChartData portfolio benchmarks overlays ViewIndexed ! j) key
              = Some (NumCell 0))
       \<and> (distinct (map fst overlays) \<and> (key, pt # rest) \<in> set overlays
            \<and> value_of pt \<noteq> 0 \<and> carriedFirst (pt # rest) (date (portfolio ! j)) \<longrightarrow>
            (buildChartData portfolio benchmarks overlays ViewIndexed ! j) (''Overlay-'' @ key)
              = Some (NumCell 0))"
proof (intro conjI impI)
  from assms have z: "0 < length portfolio" by (cases portfolio) simp_all
  assume h: "value_of (portfolio ! 0) \<noteq> 0 \<and> ''Portfolio'' \<notin> fst ` set benchmarks"
  have ov: "fold (seriesStep ViewIndexed (lookupOf overlays) (startsOf overlays) ''Overlay-''
                (date (portfolio ! 0)))
          (map fst overlays) r ''Portfolio'' = r ''Portfolio''" for r
    by (rule fold_seriesStep_other [OF overlay_field_not_Portfolio])
  from h have "''Portfolio'' \<notin> (\<lambda>k. [] @ k) ` set (map fst benchmarks)"
    by simp
  then have bn: "fold (seriesStep ViewIndexed (lookupOf benchmarks) (startsOf benchmarks) []
                (date (portfolio ! 0)))
          (map fst benchmarks) r ''Portfolio'' = r ''Portfolio''" for r
    by (rule fold_seriesStep_other)
  from h show "(buildChartData portfolio benchmarks overlays ViewIndexed ! 0) ''Portfolio''
              = Some (NumCell 0)"
    by (simp add: nth_buildChartData [OF z] ov bn rebase_own_base)
next
  assume h: "distinct (map fst benchmarks) \<and> (key, pt # rest) \<in> set benchmarks
            \<and> value_of pt \<noteq> 0 \<and> carriedFirst (pt # rest) (date (portfolio ! j))
            \<and> key \<notin> (\<lambda>k. ''Overlay-'' @ k) ` fst ` set overlays"
  then have lk: "lookupValue (lookupOf benchmarks key) (date (portfolio ! j)) = Some (value_of pt)"
    using lookupOf_member [of benchmarks key "pt # rest"]
    by (simp add: lookupValue_carriedFirst)
  from h have st: "startsOf benchmarks key = Some (value_of pt)"
    using startsOf_member [of benchmarks key "pt # rest"]
    by (simp add: firstValueOr1_def)
  from h have mem: "key \<in> set (map fst benchmarks)"
    by force
  from h have other: "key \<notin> (\<lambda>k. ''Overlay-'' @ k) ` set (map fst overlays)"
    by simp
  have "fold (seriesStep ViewIndexed (lookupOf benchmarks) (startsOf benchmarks) []
                (date (portfolio ! j)))
          (map fst benchmarks) r ([] @ key) = Some (NumCell 0)" for r
    using fold_seriesStep_written
            [where keys = "map fst benchmarks" and key = key and lookup = "lookupOf benchmarks"
               and d = "date (portfolio ! j)" and v = "value_of pt" and mode = ViewIndexed
               and starts = "startsOf benchmarks" and pre = "[]" and r = r]
          h mem lk
    by (simp add: st rebase_own_base)
  then show "(buildChartData portfolio benchmarks overlays ViewIndexed ! j) key
               = Some (NumCell 0)"
    using other by (simp add: nth_buildChartData [OF assms] fold_seriesStep_other)
next
  assume h: "distinct (map fst overlays) \<and> (key, pt # rest) \<in> set overlays
            \<and> value_of pt \<noteq> 0 \<and> carriedFirst (pt # rest) (date (portfolio ! j))"
  then have lk: "lookupValue (lookupOf overlays key) (date (portfolio ! j)) = Some (value_of pt)"
    using lookupOf_member [of overlays key "pt # rest"]
    by (simp add: lookupValue_carriedFirst)
  from h have st: "startsOf overlays key = Some (value_of pt)"
    using startsOf_member [of overlays key "pt # rest"]
    by (simp add: firstValueOr1_def)
  from h have mem: "key \<in> set (map fst overlays)"
    by force
  have "fold (seriesStep ViewIndexed (lookupOf overlays) (startsOf overlays) ''Overlay-''
                (date (portfolio ! j)))
          (map fst overlays) r (''Overlay-'' @ key) = Some (NumCell 0)" for r
    using fold_seriesStep_written
            [where keys = "map fst overlays" and key = key and lookup = "lookupOf overlays"
               and d = "date (portfolio ! j)" and v = "value_of pt" and mode = ViewIndexed
               and starts = "startsOf overlays" and pre = "''Overlay-''" and r = r]
          h mem lk
    by (simp add: st rebase_own_base)
  then show "(buildChartData portfolio benchmarks overlays ViewIndexed ! j) (''Overlay-'' @ key)
              = Some (NumCell 0)"
    by (simp add: nth_buildChartData [OF assms])
qed

theorem indexed_zero_at_own_first_value_witness:
  "(buildChartData [\<lparr>date = 19000, value_of = 200, equity = 150, cash = 50\<rparr>,
      \<lparr>date = 19001, value_of = 210, equity = 160, cash = 50\<rparr>,
      \<lparr>date = 19002, value_of = 220, equity = 170, cash = 50\<rparr>]
      [(''SPY'', [\<lparr>date = 19001, value_of = 400\<rparr>, \<lparr>date = 19002, value_of = 404\<rparr>])]
      [(''AAPL'', [\<lparr>date = 19000, value_of = 50\<rparr>, \<lparr>date = 19002, value_of = 55\<rparr>])] ViewIndexed ! 0) ''Portfolio'' = Some (NumCell 0)
   \<and> (buildChartData [\<lparr>date = 19000, value_of = 200, equity = 150, cash = 50\<rparr>,
      \<lparr>date = 19001, value_of = 210, equity = 160, cash = 50\<rparr>,
      \<lparr>date = 19002, value_of = 220, equity = 170, cash = 50\<rparr>]
      [(''SPY'', [\<lparr>date = 19001, value_of = 400\<rparr>, \<lparr>date = 19002, value_of = 404\<rparr>])]
      [(''AAPL'', [\<lparr>date = 19000, value_of = 50\<rparr>, \<lparr>date = 19002, value_of = 55\<rparr>])] ViewIndexed ! 1) ''SPY'' = Some (NumCell 0)
   \<and> (buildChartData [\<lparr>date = 19000, value_of = 200, equity = 150, cash = 50\<rparr>,
      \<lparr>date = 19001, value_of = 210, equity = 160, cash = 50\<rparr>,
      \<lparr>date = 19002, value_of = 220, equity = 170, cash = 50\<rparr>]
      [(''SPY'', [\<lparr>date = 19001, value_of = 400\<rparr>, \<lparr>date = 19002, value_of = 404\<rparr>])]
      [(''AAPL'', [\<lparr>date = 19000, value_of = 50\<rparr>, \<lparr>date = 19002, value_of = 55\<rparr>])] ViewIndexed ! 1) ''Overlay-AAPL'' = Some (NumCell 0)"
proof -
  have j: "1 < length [\<lparr>date = 19000, value_of = 200, equity = 150, cash = 50\<rparr>,
      \<lparr>date = 19001, value_of = 210, equity = 160, cash = 50\<rparr>,
      \<lparr>date = 19002, value_of = 220, equity = 170, cash = 50\<rparr>]"
    by simp
  have p: "value_of ([\<lparr>date = 19000, value_of = 200, equity = 150, cash = 50\<rparr>,
      \<lparr>date = 19001, value_of = 210, equity = 160, cash = 50\<rparr>,
      \<lparr>date = 19002, value_of = 220, equity = 170, cash = 50\<rparr>] ! 0) \<noteq> 0
      \<and> ''Portfolio'' \<notin> fst ` set [(''SPY'', [\<lparr>date = 19001, value_of = 400\<rparr>, \<lparr>date = 19002, value_of = 404\<rparr>])]"
    by simp
  have b: "distinct (map fst [(''SPY'', [\<lparr>date = 19001, value_of = 400\<rparr>, \<lparr>date = 19002, value_of = 404\<rparr>])])
      \<and> (''SPY'', \<lparr>date = 19001, value_of = 400\<rparr> # [\<lparr>date = 19002, value_of = 404\<rparr>])
          \<in> set [(''SPY'', [\<lparr>date = 19001, value_of = 400\<rparr>, \<lparr>date = 19002, value_of = 404\<rparr>])]
      \<and> value_of \<lparr>date = 19001, value_of = 400\<rparr> \<noteq> 0
      \<and> carriedFirst (\<lparr>date = 19001, value_of = 400\<rparr> # [\<lparr>date = 19002, value_of = 404\<rparr>])
          (date ([\<lparr>date = 19000, value_of = 200, equity = 150, cash = 50\<rparr>,
      \<lparr>date = 19001, value_of = 210, equity = 160, cash = 50\<rparr>,
      \<lparr>date = 19002, value_of = 220, equity = 170, cash = 50\<rparr>] ! 1))
      \<and> ''SPY'' \<notin> (\<lambda>k. ''Overlay-'' @ k) ` fst ` set [(''AAPL'', [\<lparr>date = 19000, value_of = 50\<rparr>, \<lparr>date = 19002, value_of = 55\<rparr>])]"
    by (simp add: carriedFirst_def)
  have v: "distinct (map fst [(''AAPL'', [\<lparr>date = 19000, value_of = 50\<rparr>, \<lparr>date = 19002, value_of = 55\<rparr>])])
      \<and> (''AAPL'', \<lparr>date = 19000, value_of = 50\<rparr> # [\<lparr>date = 19002, value_of = 55\<rparr>])
          \<in> set [(''AAPL'', [\<lparr>date = 19000, value_of = 50\<rparr>, \<lparr>date = 19002, value_of = 55\<rparr>])]
      \<and> value_of \<lparr>date = 19000, value_of = 50\<rparr> \<noteq> 0
      \<and> carriedFirst (\<lparr>date = 19000, value_of = 50\<rparr> # [\<lparr>date = 19002, value_of = 55\<rparr>])
          (date ([\<lparr>date = 19000, value_of = 200, equity = 150, cash = 50\<rparr>,
      \<lparr>date = 19001, value_of = 210, equity = 160, cash = 50\<rparr>,
      \<lparr>date = 19002, value_of = 220, equity = 170, cash = 50\<rparr>] ! 1))"
    by (simp add: carriedFirst_def)
  from indexed_zero_at_own_first_value [OF j, where benchmarks = "[(''SPY'', [\<lparr>date = 19001, value_of = 400\<rparr>, \<lparr>date = 19002, value_of = 404\<rparr>])]"
             and overlays = "[(''AAPL'', [\<lparr>date = 19000, value_of = 50\<rparr>, \<lparr>date = 19002, value_of = 55\<rparr>])]"
             and key = "''SPY''" and pt = "\<lparr>date = 19001, value_of = 400\<rparr>"
             and rest = "[\<lparr>date = 19002, value_of = 404\<rparr>]"] p b
  have r1: "(buildChartData [\<lparr>date = 19000, value_of = 200, equity = 150, cash = 50\<rparr>,
      \<lparr>date = 19001, value_of = 210, equity = 160, cash = 50\<rparr>,
      \<lparr>date = 19002, value_of = 220, equity = 170, cash = 50\<rparr>]
      [(''SPY'', [\<lparr>date = 19001, value_of = 400\<rparr>, \<lparr>date = 19002, value_of = 404\<rparr>])]
      [(''AAPL'', [\<lparr>date = 19000, value_of = 50\<rparr>, \<lparr>date = 19002, value_of = 55\<rparr>])] ViewIndexed ! 0) ''Portfolio'' = Some (NumCell 0)"
    and r2: "(buildChartData [\<lparr>date = 19000, value_of = 200, equity = 150, cash = 50\<rparr>,
      \<lparr>date = 19001, value_of = 210, equity = 160, cash = 50\<rparr>,
      \<lparr>date = 19002, value_of = 220, equity = 170, cash = 50\<rparr>]
      [(''SPY'', [\<lparr>date = 19001, value_of = 400\<rparr>, \<lparr>date = 19002, value_of = 404\<rparr>])]
      [(''AAPL'', [\<lparr>date = 19000, value_of = 50\<rparr>, \<lparr>date = 19002, value_of = 55\<rparr>])] ViewIndexed ! 1) ''SPY'' = Some (NumCell 0)"
    by blast+
  from indexed_zero_at_own_first_value [OF j, where benchmarks = "[(''SPY'', [\<lparr>date = 19001, value_of = 400\<rparr>, \<lparr>date = 19002, value_of = 404\<rparr>])]"
             and overlays = "[(''AAPL'', [\<lparr>date = 19000, value_of = 50\<rparr>, \<lparr>date = 19002, value_of = 55\<rparr>])]"
             and key = "''AAPL''" and pt = "\<lparr>date = 19000, value_of = 50\<rparr>"
             and rest = "[\<lparr>date = 19002, value_of = 55\<rparr>]"] v
  have r3: "(buildChartData [\<lparr>date = 19000, value_of = 200, equity = 150, cash = 50\<rparr>,
      \<lparr>date = 19001, value_of = 210, equity = 160, cash = 50\<rparr>,
      \<lparr>date = 19002, value_of = 220, equity = 170, cash = 50\<rparr>]
      [(''SPY'', [\<lparr>date = 19001, value_of = 400\<rparr>, \<lparr>date = 19002, value_of = 404\<rparr>])]
      [(''AAPL'', [\<lparr>date = 19000, value_of = 50\<rparr>, \<lparr>date = 19002, value_of = 55\<rparr>])] ViewIndexed ! 1) (''Overlay-'' @ ''AAPL'') = Some (NumCell 0)"
    by blast
  from r1 r2 r3 show ?thesis by simp
qed

text \<open>
  C8 as stated fails: a portfolio whose first value is 0 is rebased on 1 and shows
  \<open>-100\<close> in its first row; and a benchmark with two points between two portfolio dates
  is absent from the first row and shows 10, the change to its second point, in the row
  where it first appears.
\<close>

theorem indexed_rebase_counterexample:
  "map (\<lambda>r. r ''Portfolio'')
     (buildChartData
        [\<lparr>date = 1, value_of = 0, equity = 0, cash = 0\<rparr>,
         \<lparr>date = 2, value_of = 10, equity = 10, cash = 0\<rparr>]
        [] [] ViewIndexed)
     = [Some (NumCell (- 100)), Some (NumCell 900)]
   \<and> map (\<lambda>r. r ''SPY'')
     (buildChartData
        [\<lparr>date = 1, value_of = 100, equity = 100, cash = 0\<rparr>,
         \<lparr>date = 4, value_of = 110, equity = 110, cash = 0\<rparr>]
        [(''SPY'', [\<lparr>date = 2, value_of = 400\<rparr>, \<lparr>date = 3, value_of = 440\<rparr>])] []
        ViewIndexed)
     = [None, Some (NumCell 10)]"
  by (simp add: buildChartData_def Let_def or_one_def rebase_def startsOf_def lookupOf_def
        seriesStep_def lookupValue_def firstValueOr1_def)

end
